theory Spec2Isabelle
  imports Complex_Main "HOL-Library.Sublist"
begin

section \<open>Numbers and strings of the host language\<close>

text \<open>
  The source is JavaScript. A finite number is modelled as an exact \<^typ>\<open>real\<close> (an
  integral one as \<^typ>\<open>int\<close>): rounding error and overflow of IEEE doubles are not
  modelled. The special values that the source can produce from finite inputs
  (division by zero, a failed \<open>parseInt\<close>) are modelled explicitly, and the
  constant \<open>Math.PI\<close> is the double that it is.
\<close>

datatype jsnum = Num real | Infinity | NegInfinity | NaN

text \<open>Digit table of \<open>Number.prototype.toString(radix)\<close>.\<close>

definition digit_char :: "nat \<Rightarrow> char" where
  "digit_char d = ''0123456789abcdefghijklmnopqrstuvwxyz'' ! d"

fun digits10 :: "nat \<Rightarrow> string" where
  "digits10 n = (if n < 10 then [digit_char n] else digits10 (n div 10) @ [digit_char (n mod 10)])"

declare digits10.simps [simp del]

text \<open>\<open>n.toString()\<close> for an integral finite number \<open>n\<close>.\<close>

definition int_toString :: "int \<Rightarrow> string" where
  "int_toString i = (if i < 0 then CHR ''-'' # digits10 (nat (- i)) else digits10 (nat i))"

text \<open>
  \<open>Math.round\<close> rounds to the nearest integer, ties towards \<open>+\<infinity>\<close>: it is
  \<open>\<lfloor>x + 1/2\<rfloor>\<close>, which is what \<^const>\<open>round\<close> is in HOL.
\<close>

definition math_round :: "real \<Rightarrow> int" where
  "math_round x = \<lfloor>x + 1 / 2\<rfloor>"

definition math_floor :: "real \<Rightarrow> int" where
  "math_floor x = \<lfloor>x\<rfloor>"

text \<open>ASCII case folding, as the \<open>i\<close> flag of the regular expressions needs it.\<close>

definition toLowerCase_char :: "char \<Rightarrow> char" where
  "toLowerCase_char c =
     (case map_of (zip ''ABCDEFGHIJKLMNOPQRSTUVWXYZ'' ''abcdefghijklmnopqrstuvwxyz'') c of
        Some d \<Rightarrow> d
      | None \<Rightarrow> c)"

definition toLowerCase :: "string \<Rightarrow> string" where
  "toLowerCase s = map toLowerCase_char s"

section \<open>Coordinates\<close>

record coord =
  lat :: real
  lng :: real

section \<open>Grid Estimator: \<open>estimateFromBlock\<close>\<close>

definition dtLat :: real where "dtLat = 340522 / 10000"
definition dtLng :: real where "dtLng = - (1182437 / 10000)"
definition blockSize :: real where "blockSize = 2 / 1000"

text \<open>
  \<open>streetName.match(/^(N|S|North|South)/i) || streetName.match(/(Ave|Avenue|Way|Place|Pl)$/i)\<close>
\<close>

definition isNS :: "string \<Rightarrow> bool" where
  "isNS streetName =
     (list_ex (\<lambda>p. prefix p (toLowerCase streetName)) [''n'', ''s'', ''north'', ''south'']
      \<or> list_ex (\<lambda>p. suffix p (toLowerCase streetName))
            [''ave'', ''avenue'', ''way'', ''place'', ''pl''])"

definition blocks :: "coord \<Rightarrow> string \<Rightarrow> real" where
  "blocks loc streetName =
     (let latBlocks = \<bar>lat loc - dtLat\<bar> / blockSize;
          lngBlocks = \<bar>lng loc - dtLng\<bar> / blockSize
      in if isNS streetName then lngBlocks else latBlocks)"

text \<open>
  The estimate after \<open>estimate = Math.round(estimate / 10) * 10\<close>, before the
  jitter is added.
\<close>

definition block_estimate :: "coord \<Rightarrow> string \<Rightarrow> int" where
  "block_estimate loc streetName =
     (let estimate = math_round (100 + blocks loc streetName * 100)
      in math_round (real_of_int estimate / 10) * 10)"

text \<open>\<open>Math.floor(Math.random() * 50)\<close>, for the value \<open>rnd\<close> that \<open>Math.random()\<close> returned.\<close>

definition jitter :: "real \<Rightarrow> int" where
  "jitter rnd = math_floor (rnd * 50)"

definition estimateFromBlock :: "coord \<Rightarrow> string \<Rightarrow> real \<Rightarrow> string" where
  "estimateFromBlock loc streetName rnd =
     int_toString (block_estimate loc streetName + jitter rnd) @ '' (approx)''"

section \<open>Special values of the arithmetic\<close>

text \<open>
  \<open>x / y\<close> for finite \<open>x\<close> and a finite \<open>y\<close> that is not negative zero (here
  \<open>y\<close> is a \<open>Math.hypot\<close> result): a zero divisor gives an infinity, or
  \<open>NaN\<close> when the dividend is zero too.
\<close>

definition js_div :: "real \<Rightarrow> real \<Rightarrow> jsnum" where
  "js_div x y =
     (if y \<noteq> 0 then Num (x / y)
      else if 0 < x then Infinity else if x < 0 then NegInfinity else NaN)"

text \<open>\<open>Math.max(a, v)\<close> and \<open>Math.min(a, v)\<close> for a finite \<open>a\<close>: \<open>NaN\<close> is passed on.\<close>

fun math_max :: "real \<Rightarrow> jsnum \<Rightarrow> jsnum" where
  "math_max a (Num v) = Num (max a v)"
| "math_max a Infinity = Infinity"
| "math_max a NegInfinity = Num a"
| "math_max a NaN = NaN"

fun math_min :: "real \<Rightarrow> jsnum \<Rightarrow> jsnum" where
  "math_min a (Num v) = Num (min a v)"
| "math_min a Infinity = Num a"
| "math_min a NegInfinity = NegInfinity"
| "math_min a NaN = NaN"

text \<open>\<open>a * v\<close> and \<open>a + v\<close> for a finite \<open>a\<close>.\<close>

fun js_mul :: "real \<Rightarrow> jsnum \<Rightarrow> jsnum" where
  "js_mul a (Num v) = Num (a * v)"
| "js_mul a Infinity = (if 0 < a then Infinity else if a < 0 then NegInfinity else NaN)"
| "js_mul a NegInfinity = (if 0 < a then NegInfinity else if a < 0 then Infinity else NaN)"
| "js_mul a NaN = NaN"

fun js_add :: "real \<Rightarrow> jsnum \<Rightarrow> jsnum" where
  "js_add a (Num v) = Num (a + v)"
| "js_add a Infinity = Infinity"
| "js_add a NegInfinity = NegInfinity"
| "js_add a NaN = NaN"

fun js_round :: "jsnum \<Rightarrow> jsnum" where
  "js_round (Num v) = Num (real_of_int (math_round v))"
| "js_round Infinity = Infinity"
| "js_round NegInfinity = NegInfinity"
| "js_round NaN = NaN"

text \<open>
  \<open>v % 2\<close>: the remainder has the sign of the dividend (the quotient is
  truncated towards zero); it is \<open>NaN\<close> for an infinite or \<open>NaN\<close> dividend.
\<close>

definition trunc :: "real \<Rightarrow> int" where
  "trunc x = (if 0 \<le> x then \<lfloor>x\<rfloor> else \<lceil>x\<rceil>)"

fun js_rem2 :: "jsnum \<Rightarrow> jsnum" where
  "js_rem2 (Num v) = Num (v - 2 * real_of_int (trunc (v / 2)))"
| "js_rem2 Infinity = NaN"
| "js_rem2 NegInfinity = NaN"
| "js_rem2 NaN = NaN"

text \<open>\<open>v++\<close>\<close>

fun js_incr :: "jsnum \<Rightarrow> jsnum" where
  "js_incr (Num v) = Num (v + 1)"
| "js_incr Infinity = Infinity"
| "js_incr NegInfinity = NegInfinity"
| "js_incr NaN = NaN"

text \<open>
  \<open>v.toString()\<close>. Every finite value it is applied to is a \<open>Math.round\<close>
  result, possibly incremented, hence integral: its decimal digits are those of
  its integer part.
\<close>

fun num_toString :: "jsnum \<Rightarrow> string" where
  "num_toString (Num v) = int_toString \<lfloor>v\<rfloor>"
| "num_toString Infinity = ''Infinity''"
| "num_toString NegInfinity = ''-Infinity''"
| "num_toString NaN = ''NaN''"

definition hypot :: "real \<Rightarrow> real \<Rightarrow> real" where
  "hypot x y = sqrt (x\<^sup>2 + y\<^sup>2)"

text \<open>\<open>Math.atan2(y, x)\<close> on finite arguments (negative zero does not occur).\<close>

definition atan2 :: "real \<Rightarrow> real \<Rightarrow> real" where
  "atan2 y x =
     (if 0 < x then arctan (y / x)
      else if x < 0 then (if 0 \<le> y then arctan (y / x) + pi else arctan (y / x) - pi)
      else if 0 < y then pi / 2 else if y < 0 then - (pi / 2) else 0)"

text \<open>
  \<open>Math.PI\<close> is the double nearest to \<open>\<pi>\<close>, the fraction \<open>884279719003555 / 2\<^sup>4\<^sup>8\<close>,
  which lies below \<open>\<pi>\<close>: \<open>Math.cos(Math.PI / 2)\<close> is a small positive number, not 0.
\<close>

definition math_PI :: real where
  "math_PI = 884279719003555 / 281474976710656"

section \<open>\<open>parseInt\<close>\<close>

text \<open>
  \<open>parseInt(s)\<close> with no radix: leading white space is skipped, a sign is read,
  a prefix \<open>0x\<close> or \<open>0X\<close> selects radix 16, and the longest run of digits of the
  radix is the value; with no digit the result is \<open>NaN\<close>, here \<open>None\<close>.
\<close>

definition isWhiteSpace :: "char \<Rightarrow> bool" where
  "isWhiteSpace c = (c \<in> set [CHR '' '', CHR 0x09, CHR 0x0A, CHR 0x0B, CHR 0x0C, CHR 0x0D])"

definition radix_digit :: "nat \<Rightarrow> char \<Rightarrow> nat option" where
  "radix_digit R c =
     (case map_of (zip ''0123456789abcdefghijklmnopqrstuvwxyz'' [0..<36]) (toLowerCase_char c) of
        None \<Rightarrow> None
      | Some d \<Rightarrow> if d < R then Some d else None)"

definition digits_value :: "nat \<Rightarrow> string \<Rightarrow> nat" where
  "digits_value R ds = foldl (\<lambda>a c. a * R + (case radix_digit R c of Some d \<Rightarrow> d | None \<Rightarrow> 0)) 0 ds"

definition parseInt :: "string \<Rightarrow> int option" where
  "parseInt s =
     (let s1 = dropWhile isWhiteSpace s;
          neg = (take 1 s1 = ''-'');
          s2 = (if take 1 s1 = ''-'' \<or> take 1 s1 = ''+'' then drop 1 s1 else s1);
          hex = (toLowerCase (take 2 s2) = ''0x'');
          R = (if hex then 16 else 10);
          s3 = (if hex then drop 2 s2 else s2);
          ds = takeWhile (\<lambda>c. radix_digit R c \<noteq> None) s3
      in if ds = [] then None
         else Some (if neg then - int (digits_value R ds) else int (digits_value R ds)))"

section \<open>Geocoder responses\<close>

text \<open>
  A JSON string field that may be absent. In a condition, an absent field and the
  empty string are both falsy.
\<close>

definition truthy :: "string option \<Rightarrow> bool" where
  "truthy v = (case v of None \<Rightarrow> False | Some s \<Rightarrow> s \<noteq> [])"

record address =
  house_number :: "string option"
  road :: "string option"
  street :: "string option"
  neighbourhood :: "string option"
  suburb :: "string option"
  city :: "string option"
  postcode :: "string option"

text \<open>
  An element of the search response: its \<open>address\<close> (absent on an element that
  has none), and \<open>parseFloat(p.lat)\<close>, \<open>parseFloat(p.lon)\<close>, taken finite: a
  place whose coordinates do not parse (\<open>NaN\<close>) is not modelled.
\<close>

record place =
  place_address :: "address option"
  place_lat :: real
  place_lon :: real

datatype js_error = NetworkError | SyntaxError | TypeError

text \<open>
  What \<open>await fetch(searchUrl)\<close> followed by \<open>await res.json()\<close> gives: the
  request fails, the body is not JSON, the JSON value is not an array (it has no
  \<open>filter\<close>), or it is an array, whose elements may be \<open>null\<close> (\<open>None\<close>).
\<close>

datatype search_result = FetchFailed | InvalidJson | NotAnArray | Places "place option list"

section \<open>Address Interpolator: \<open>interpolateAddress\<close>\<close>

text \<open>
  The objects that the \<open>map\<close> callback creates. \<open>ref\<close> is the identity of the
  object (the index at which \<open>map\<close> created it): \<open>===\<close> on objects compares
  identities, not fields.
\<close>

record cand = coord +
  ref :: nat
  num :: int

definition has_house_number :: "place \<Rightarrow> bool" where
  "has_house_number p =
     (case place_address p of None \<Rightarrow> False | Some a \<Rightarrow> truthy (house_number a))"

text \<open>
  The object built for a place that passed the first filter, \<open>None\<close> when its
  \<open>num\<close> is \<open>NaN\<close>, so that the second filter drops it.
\<close>

definition mk_cand :: "nat \<times> place \<Rightarrow> cand option" where
  "mk_cand ip =
     (case ip of (i, p) \<Rightarrow>
        (case place_address p of
           None \<Rightarrow> None
         | Some a \<Rightarrow>
            (case house_number a of
               None \<Rightarrow> None
             | Some h \<Rightarrow>
                (case parseInt h of
                   None \<Rightarrow> None
                 | Some n \<Rightarrow> Some \<lparr>lat = place_lat p, lng = place_lon p, ref = i, num = n\<rparr>))))"

text \<open>Reading \<open>p.address\<close> of a \<open>null\<close> element throws a \<open>TypeError\<close>.\<close>

definition withNumbers :: "place option list \<Rightarrow> js_error + cand list" where
  "withNumbers places =
     (case those places of
        None \<Rightarrow> Inl TypeError
      | Some ps \<Rightarrow> Inr (List.map_filter mk_cand (enumerate 0 (filter has_house_number ps))))"

definition dist_to :: "coord \<Rightarrow> cand \<Rightarrow> real" where
  "dist_to loc a = hypot (lat a - lat loc) (lng a - lng loc)"

definition ratio :: "coord \<Rightarrow> cand \<Rightarrow> cand \<Rightarrow> jsnum" where
  "ratio loc p1 p2 =
     (let totalDist = hypot (lat p2 - lat p1) (lng p2 - lng p1);
          ourDist = hypot (lat loc - lat p1) (lng loc - lng p1)
      in math_min 1 (math_max 0 (js_div ourDist totalDist)))"

text \<open>\<open>Math.round(p1.num + (p2.num - p1.num) * ratio)\<close>, before the parity adjustment.\<close>

definition interpolated :: "coord \<Rightarrow> cand \<Rightarrow> cand \<Rightarrow> jsnum" where
  "interpolated loc p1 p2 =
     js_round (js_add (real_of_int (num p1))
                 (js_mul (real_of_int (num p2 - num p1)) (ratio loc p1 p2)))"

definition side :: "coord \<Rightarrow> cand \<Rightarrow> cand \<Rightarrow> real" where
  "side loc p1 p2 =
     (let bearing = atan2 (lng p2 - lng p1) (lat p2 - lat p1);
          perpendicular = bearing + math_PI / 2
      in sgn ((lat loc - lat p1) * cos perpendicular + (lng loc - lng p1) * sin perpendicular))"

definition adjust :: "real \<Rightarrow> jsnum \<Rightarrow> jsnum" where
  "adjust sd v =
     (if 0 < sd \<and> js_rem2 v = Num 0 then js_incr v
      else if sd < 0 \<and> js_rem2 v = Num 1 then js_incr v
      else v)"

text \<open>The body of the \<open>try\<close> block; \<open>Inl\<close> is a thrown exception.\<close>

definition interpolate_try :: "coord \<Rightarrow> string \<Rightarrow> search_result \<Rightarrow> real \<Rightarrow> js_error + string" where
  "interpolate_try loc streetName res rnd =
     (case res of
        FetchFailed \<Rightarrow> Inl NetworkError
      | InvalidJson \<Rightarrow> Inl SyntaxError
      | NotAnArray \<Rightarrow> Inl TypeError
      | Places places \<Rightarrow>
         (case withNumbers places of
            Inl e \<Rightarrow> Inl e
          | Inr wn \<Rightarrow>
             if length wn < 2 then Inr (estimateFromBlock loc streetName rnd)
             else
               let sorted = sort_key (dist_to loc) wn;
                   p1 = sorted ! 0;
                   p2 = (if 1 < length sorted then sorted ! 1 else sorted ! 0)
               in if ref p1 = ref p2 then Inr (int_toString (num p1))
                  else Inr (num_toString (adjust (side loc p1 p2) (interpolated loc p1 p2)))))"

text \<open>
  The \<open>catch\<close> clause replaces every exception of the body by the Grid
  Estimator's result; \<open>Inl\<close> would be an exception that reaches the caller.
\<close>

definition interpolateAddress :: "coord \<Rightarrow> string \<Rightarrow> search_result \<Rightarrow> real \<Rightarrow> js_error + string" where
  "interpolateAddress loc streetName res rnd =
     (case interpolate_try loc streetName res rnd of
        Inr s \<Rightarrow> Inr s
      | Inl e \<Rightarrow> Inr (estimateFromBlock loc streetName rnd))"

text \<open>
  The ratio as the specification words it, for comparison with \<^const>\<open>ratio\<close>: the
  position of the orthogonal projection of the target on the line from \<open>p1\<close> to
  \<open>p2\<close>, as a fraction of the segment, clamped to the unit interval; and the
  estimate it gives before the parity adjustment.
\<close>

definition spec_projected_ratio :: "coord \<Rightarrow> cand \<Rightarrow> cand \<Rightarrow> real" where
  "spec_projected_ratio loc p1 p2 =
     min 1 (max 0
       (((lat loc - lat p1) * (lat p2 - lat p1) + (lng loc - lng p1) * (lng p2 - lng p1))
        / ((lat p2 - lat p1)\<^sup>2 + (lng p2 - lng p1)\<^sup>2)))"

definition spec_estimate :: "coord \<Rightarrow> cand \<Rightarrow> cand \<Rightarrow> int" where
  "spec_estimate loc p1 p2 =
     math_round (real_of_int (num p1)
                 + real_of_int (num p2 - num p1) * spec_projected_ratio loc p1 p2)"

section \<open>Address Composer: \<open>getAddress\<close>\<close>

text \<open>\<open>v || d\<close> for a string field \<open>v\<close> that may be absent and a string \<open>d\<close>.\<close>

definition or_else :: "string option \<Rightarrow> string \<Rightarrow> string" where
  "or_else v d = (case v of None \<Rightarrow> d | Some s \<Rightarrow> if s = [] then d else s)"

text \<open>\<open>parts.join(sep)\<close>\<close>

fun join :: "string \<Rightarrow> string list \<Rightarrow> string" where
  "join sep [] = []"
| "join sep [x] = x"
| "join sep (x # y # ys) = x @ sep @ join sep (y # ys)"

text \<open>The object \<open>{}\<close> that stands for a missing \<open>data.address\<close>.\<close>

definition empty_address :: address where
  "empty_address = \<lparr>house_number = None, road = None, street = None, neighbourhood = None,
     suburb = None, city = None, postcode = None\<rparr>"

record reverse_data =
  data_address :: "address option"
  display_name :: "string option"

text \<open>
  What the reverse lookup gives: the request fails, the body is not JSON, the
  JSON value is \<open>null\<close> (reading \<open>data.address\<close> throws), or it is a value with
  the two fields read here.
\<close>

datatype reverse_result = RevFetchFailed | RevInvalidJson | RevNull | RevData reverse_data

text \<open>\<open>data.address || {}\<close> and \<open>addr.road || addr.street || ''\<close>.\<close>

definition addr_of :: "reverse_data \<Rightarrow> address" where
  "addr_of data = (case data_address data of None \<Rightarrow> empty_address | Some a \<Rightarrow> a)"

definition road_of :: "reverse_data \<Rightarrow> string" where
  "road_of data = or_else (road (addr_of data)) (or_else (street (addr_of data)) [])"

definition address_parts :: "address \<Rightarrow> string \<Rightarrow> string \<Rightarrow> string list" where
  "address_parts addr streetNum rd =
     (if streetNum \<noteq> [] \<and> rd \<noteq> [] then [streetNum @ '' '' @ rd]
      else if rd \<noteq> [] then [rd] else [])
     @ (if truthy (neighbourhood addr) then [or_else (neighbourhood addr) []]
        else if truthy (suburb addr) then [or_else (suburb addr) []] else [])
     @ [or_else (city addr) ''Los Angeles'']
     @ [''CA'']
     @ (if truthy (postcode addr) then [or_else (postcode addr) []] else [])"

definition getAddress_try ::
  "coord \<Rightarrow> reverse_result \<Rightarrow> search_result \<Rightarrow> real \<Rightarrow> js_error + string" where
  "getAddress_try l rv res rnd =
     (case rv of
        RevFetchFailed \<Rightarrow> Inl NetworkError
      | RevInvalidJson \<Rightarrow> Inl SyntaxError
      | RevNull \<Rightarrow> Inl TypeError
      | RevData data \<Rightarrow>
         let addr = addr_of data;
             rd = road_of data
         in if rd = [] then Inr (or_else (display_name data) ''Los Angeles, CA'')
            else
              (case (if truthy (house_number addr) then Inr (or_else (house_number addr) [])
                     else interpolateAddress l rd res rnd) of
                 Inl e \<Rightarrow> Inl e
               | Inr streetNum \<Rightarrow> Inr (join '', '' (address_parts addr streetNum rd))))"

definition getAddress ::
  "coord option \<Rightarrow> reverse_result \<Rightarrow> search_result \<Rightarrow> real \<Rightarrow> js_error + string" where
  "getAddress l rv res rnd =
     (case l of
        None \<Rightarrow> Inr ''Los Angeles, CA''
      | Some loc \<Rightarrow>
         (case getAddress_try loc rv res rnd of
            Inr s \<Rightarrow> Inr s
          | Inl e \<Rightarrow> Inr ''Los Angeles, CA''))"

text \<open>
  The composer of the variant whose default is \<open>Bel Air, Los Angeles, CA\<close>
  (\<open>reverseGeo\<close>): the truthy fields joined, then the display string, then the
  default.
\<close>

definition reverseGeo_try :: "reverse_result \<Rightarrow> js_error + string" where
  "reverseGeo_try rv =
     (case rv of
        RevFetchFailed \<Rightarrow> Inl NetworkError
      | RevInvalidJson \<Rightarrow> Inl SyntaxError
      | RevNull \<Rightarrow> Inl TypeError
      | RevData d \<Rightarrow>
         let a = addr_of d;
             parts = filter (\<lambda>s. s \<noteq> [])
                       [or_else (house_number a) [], or_else (road a) [],
                        or_else (neighbourhood a) (or_else (suburb a) []),
                        or_else (city a) ''Los Angeles'', ''CA'', or_else (postcode a) []]
         in Inr (if join '', '' parts \<noteq> [] then join '', '' parts
                 else or_else (display_name d) ''Bel Air, Los Angeles, CA''))"

definition reverseGeo :: "coord option \<Rightarrow> reverse_result \<Rightarrow> js_error + string" where
  "reverseGeo l rv =
     (case l of
        None \<Rightarrow> Inr ''Bel Air, Los Angeles, CA''
      | Some loc \<Rightarrow>
         (case reverseGeo_try rv of
            Inr s \<Rightarrow> Inr s
          | Inl e \<Rightarrow> Inr ''Bel Air, Los Angeles, CA''))"

section \<open>Report Builder: \<open>handleReport\<close>\<close>

definition toUpperCase_char :: "char \<Rightarrow> char" where
  "toUpperCase_char c =
     (case map_of (zip ''abcdefghijklmnopqrstuvwxyz'' ''ABCDEFGHIJKLMNOPQRSTUVWXYZ'') c of
        Some d \<Rightarrow> d
      | None \<Rightarrow> c)"

definition toUpperCase :: "string \<Rightarrow> string" where
  "toUpperCase s = map toUpperCase_char s"

text \<open>\<open>n.toString(36)\<close> for a natural number \<open>n\<close>.\<close>

fun digits36 :: "nat \<Rightarrow> string" where
  "digits36 n = (if n < 36 then [digit_char n] else digits36 (n div 36) @ [digit_char (n mod 36)])"

declare digits36.simps [simp del]

text \<open>\<open>s.slice(b, e)\<close> for \<open>0 \<le> b \<le> e\<close>.\<close>

definition slice :: "nat \<Rightarrow> nat \<Rightarrow> string \<Rightarrow> string" where
  "slice b e s = take (e - b) (drop b s)"

text \<open>\<open>Date.now().toString(36).toUpperCase()\<close>\<close>

definition time_token :: "nat \<Rightarrow> string" where
  "time_token n = toUpperCase (digits36 n)"

text \<open>
  The identifier, from the clock reading \<open>Date.now()\<close> (milliseconds) and the text
  \<open>Math.random().toString(36)\<close> of the random draw.
\<close>

definition reportId_of :: "nat \<Rightarrow> string \<Rightarrow> string" where
  "reportId_of now_ms rnd_text =
     ''LA-'' @ time_token now_ms @ ''-'' @ toUpperCase (slice 2 6 rnd_text)"

record location =
  loc_lat :: "real option"
  loc_lng :: "real option"
  loc_accuracy :: "real option"

text \<open>The request body as parsed: every field of the interface may be absent.\<close>

record PotholeReport =
  rep_type :: "string option"
  rep_location :: "location option"
  rep_timestamp :: "string option"
  rep_image :: "string option"
  rep_address :: "string option"
  rep_source :: "string option"

text \<open>\<open>await request.json()\<close>: it throws, or gives \<open>null\<close>, or an object.\<close>

datatype request_body = BadJson | JsonNull | Report PotholeReport

text \<open>
  \<open>encodeURIComponent\<close> on a string held as its UTF-8 bytes: the unreserved
  characters stay, every other byte becomes \<open>%\<close> and its two hexadecimal digits.
\<close>

definition encode_byte :: "char \<Rightarrow> string" where
  "encode_byte c =
     (if c \<in> set (''ABCDEFGHIJKLMNOPQRSTUVWXYZabcdefghijklmnopqrstuvwxyz0123456789'' @ ''-_.!~*()'' @ [CHR 0x27])
      then [c]
      else [CHR ''%'', toUpperCase_char (digit_char (of_char c div 16)),
            toUpperCase_char (digit_char (of_char c mod 16))])"

definition encodeURIComponent :: "string \<Rightarrow> string" where
  "encodeURIComponent s = concat (map encode_byte s)"

text \<open>
  Library functions that the handler calls and whose result depends on the
  decimal expansion of a floating-point number: the text of a number in a
  template, and \<open>toFixed(6)\<close>.
\<close>

record platform =
  number_text :: "real \<Rightarrow> string"
  toFixed6 :: "real \<Rightarrow> string"

text \<open>What the clock and the random generator return during one call.\<close>

record readings =
  now :: nat
  random36 :: string
  isoNow :: string
  letterDate :: string

record fullReport =
  fr_report :: PotholeReport
  fr_id :: string
  fr_googleMapsUrl :: string
  fr_imageUrl :: string
  fr_viewUrl :: string
  fr_status :: string
  fr_submittedAt :: string

text \<open>The Report Store: the record and its \<open>expirationTtl\<close> under each key.\<close>

type_synonym kv = "string \<rightharpoonup> fullReport \<times> nat"

record success_body =
  sb_reportId :: string
  sb_googleMapsUrl :: string
  sb_imageUrl :: string
  sb_viewUrl :: string
  sb_formalLetter :: string
  sb_mailtoUrl :: string
  sb_myLA311Url :: string
  sb_address :: string
  sb_message :: string

datatype response_body = Success success_body | Failure string

text \<open>The status code and the JSON body of a response.\<close>

datatype response = Response nat response_body

definition LA_311_EMAIL :: string where
  "LA_311_EMAIL = ''311@lacity.org''"

definition STREET_SERVICES_EMAIL :: string where
  "STREET_SERVICES_EMAIL = ''BSS.CustomerService@lacity.org''"

text \<open>A value in a template: an absent one reads \<open>undefined\<close>.\<close>

definition template_text :: "string option \<Rightarrow> string" where
  "template_text v = (case v of None \<Rightarrow> ''undefined'' | Some s \<Rightarrow> s)"

definition template_number :: "platform \<Rightarrow> real option \<Rightarrow> string" where
  "template_number P v = (case v of None \<Rightarrow> ''undefined'' | Some x \<Rightarrow> number_text P x)"

text \<open>\<open>v.toFixed(6)\<close> throws a \<open>TypeError\<close> on an absent \<open>v\<close>.\<close>

definition toFixed6_of :: "platform \<Rightarrow> real option \<Rightarrow> js_error + string" where
  "toFixed6_of P v = (case v of None \<Rightarrow> Inl TypeError | Some x \<Rightarrow> Inr (toFixed6 P x))"

definition generateFormalLetter ::
  "platform \<Rightarrow> string \<Rightarrow> PotholeReport \<Rightarrow> location \<Rightarrow> string \<Rightarrow> string \<Rightarrow> string \<Rightarrow> string
     \<Rightarrow> js_error + string" where
  "generateFormalLetter P date report l reportId googleMapsUrl imageUrl viewUrl =
     (case toFixed6_of P (loc_lat l) of
        Inl e \<Rightarrow> Inl e
      | Inr latText \<Rightarrow>
         (case toFixed6_of P (loc_lng l) of
            Inl e \<Rightarrow> Inl e
          | Inr lngText \<Rightarrow>
             Inr (join [CHR 0x0A]
               [''POTHOLE REPAIR REQUEST'',
                ''Report ID: '' @ reportId,
                ''Date: '' @ date,
                [],
                ''To: Los Angeles Bureau of Street Services'',
                ''Re: Pothole requiring immediate repair'',
                [],
                ''Dear Street Services Team,'',
                [],
                ''I am writing to report a pothole that requires repair at the following location:'',
                [],
                ''STREET ADDRESS: '' @ template_text (rep_address report),
                [],
                ''GPS COORDINATES: '' @ latText @ '', '' @ lngText,
                [],
                ''GOOGLE MAPS: '' @ googleMapsUrl,
                [],
                ''PHOTO OF POTHOLE: '' @ imageUrl,
                [],
                ''FULL REPORT WITH PHOTO: '' @ viewUrl,
                [],
                ''This pothole poses a safety hazard to vehicles and pedestrians. Please prioritize this repair.'',
                [],
                ''Thank you for your service to our community.'',
                [],
                ''Sincerely,'',
                ''A Concerned LA Resident'',
                [],
                ''---'',
                ''Submitted via POTHOLE LA'',
                ''Report ID: '' @ reportId])))"

definition failure_response :: response where
  "failure_response = Response 500 (Failure ''Failed to process report'')"

text \<open>The \<open>reportId\<close> of a response, when it has one.\<close>

definition response_reportId :: "response \<Rightarrow> string option" where
  "response_reportId r =
     (case r of Response st (Success b) \<Rightarrow> Some (sb_reportId b) | Response st (Failure m) \<Rightarrow> None)"

text \<open>
  The handler, on the store it is given: it returns the response and the store
  it leaves. The \<open>catch\<close> clause answers every exception with the failure
  response; what was stored before the exception stays stored. The store's
  \<open>put\<close> is taken to succeed.
\<close>

definition handleReport ::
  "platform \<Rightarrow> readings \<Rightarrow> string \<Rightarrow> request_body \<Rightarrow> kv \<Rightarrow> response \<times> kv" where
  "handleReport P E origin body store =
     (case body of
        BadJson \<Rightarrow> (failure_response, store)
      | JsonNull \<Rightarrow> (failure_response, store)
      | Report report \<Rightarrow>
         (case rep_location report of
            None \<Rightarrow> (failure_response, store)
          | Some l \<Rightarrow>
             let reportId = reportId_of (now E) (random36 E);
                 googleMapsUrl = ''https://www.google.com/maps?q='' @ template_number P (loc_lat l)
                                  @ '','' @ template_number P (loc_lng l);
                 imageUrl = origin @ ''/image/'' @ reportId;
                 viewUrl = origin @ ''/view/'' @ reportId;
                 full = \<lparr>fr_report = report, fr_id = reportId, fr_googleMapsUrl = googleMapsUrl,
                          fr_imageUrl = imageUrl, fr_viewUrl = viewUrl,
                          fr_status = ''pending_submission'', fr_submittedAt = isoNow E\<rparr>;
                 store' = store(reportId \<mapsto> (full, 60 * 60 * 24 * 180))
             in (case generateFormalLetter P (letterDate E) report l reportId googleMapsUrl
                        imageUrl viewUrl of
                   Inl e \<Rightarrow> (failure_response, store')
                 | Inr formalLetter \<Rightarrow>
                    (case rep_address report of
                       None \<Rightarrow> (failure_response, store')
                     | Some addr \<Rightarrow>
                        let streetName = (if takeWhile (\<lambda>c. c \<noteq> CHR '','') addr \<noteq> []
                                          then takeWhile (\<lambda>c. c \<noteq> CHR '','') addr
                                          else ''Unknown Location'');
                            emailSubject = encodeURIComponent
                                             (''Pothole Report '' @ reportId @ '' - '' @ streetName);
                            emailBody = encodeURIComponent formalLetter;
                            mailtoUrl = ''mailto:'' @ STREET_SERVICES_EMAIL @ ''?cc='' @ LA_311_EMAIL
                                        @ ''&subject='' @ emailSubject @ ''&body='' @ emailBody
                        in (Response 200
                              (Success \<lparr>sb_reportId = reportId, sb_googleMapsUrl = googleMapsUrl,
                                 sb_imageUrl = imageUrl, sb_viewUrl = viewUrl,
                                 sb_formalLetter = formalLetter, sb_mailtoUrl = mailtoUrl,
                                 sb_myLA311Url = ''https://myla311.lacity.org/portal/faces/home'',
                                 sb_address = addr, sb_message = ''Report ready!''\<rparr>),
                            store')))))"

section \<open>Example data\<close>

text \<open>A search result with the house number \<open>h\<close> at a position.\<close>

definition place_at :: "string \<Rightarrow> real \<Rightarrow> real \<Rightarrow> place option" where
  "place_at h la lo =
     Some \<lparr>place_address = Some (empty_address\<lparr>house_number := Some h\<rparr>),
           place_lat = la, place_lon = lo\<rparr>"

text \<open>A platform for the examples: it renders integral numbers as the library does.\<close>

definition example_platform :: platform where
  "example_platform =
     \<lparr>number_text = (\<lambda>x. int_toString \<lfloor>x\<rfloor>), toFixed6 = (\<lambda>x. int_toString \<lfloor>x\<rfloor> @ ''.000000'')\<rparr>"

definition example_location :: location where
  "example_location = \<lparr>loc_lat = Some 34, loc_lng = Some (- 118), loc_accuracy = Some 10\<rparr>"

text \<open>A complete capture, and the same capture with no \<open>address\<close> field.\<close>

definition example_report :: PotholeReport where
  "example_report =
     \<lparr>rep_type = Some ''pothole'', rep_location = Some example_location,
      rep_timestamp = Some ''2024-01-01T00:00:00.000Z'',
      rep_image = Some ''data:image/jpeg;base64,AAAA'',
      rep_address = Some ''123 Main St, Los Angeles, CA'',
      rep_source = Some ''POTHOLE LA''\<rparr>"

definition report_without_address :: PotholeReport where
  "report_without_address = example_report\<lparr>rep_address := None\<rparr>"

definition example_readings :: readings where
  "example_readings =
     \<lparr>now = 1700000000000, random36 = ''0.4fzyo82mvyr'',
      isoNow = ''2023-11-14T22:13:20.000Z'', letterDate = ''Tuesday, November 14, 2023''\<rparr>"

text \<open>The address of a geocoder answer that has a house number.\<close>

definition example_address :: address where
  "example_address =
     \<lparr>house_number = Some ''123'', road = Some ''Main St'', street = None,
      neighbourhood = Some ''Downtown'', suburb = None, city = Some ''Los Angeles'',
      postcode = Some ''90012''\<rparr>"

section \<open>Properties of the Grid Estimator\<close>

lemma digits10_nonempty: "digits10 n \<noteq> []"
  by (subst digits10.simps) simp

lemma int_toString_nonempty: "int_toString i \<noteq> []"
  by (simp add: int_toString_def digits10_nonempty)

lemma num_toString_nonempty: "num_toString v \<noteq> []"
  by (cases v) (simp_all add: int_toString_nonempty)

lemma estimateFromBlock_nonempty: "estimateFromBlock loc streetName rnd \<noteq> []"
  by (simp add: estimateFromBlock_def)

lemma estimateFromBlock_tagged: "suffix ''(approx)'' (estimateFromBlock loc streetName rnd)"
proof -
  have "estimateFromBlock loc streetName rnd
        = (int_toString (block_estimate loc streetName + jitter rnd) @ '' '') @ ''(approx)''"
    by (simp add: estimateFromBlock_def)
  then show ?thesis
    unfolding suffix_def by blast
qed

lemma blocks_nonneg: "0 \<le> blocks loc streetName"
  by (simp add: blocks_def blockSize_def Let_def)

lemma block_estimate_ge_100: "100 \<le> block_estimate loc streetName"
proof -
  have "(100::real) + 1 / 2 \<le> 100 + blocks loc streetName * 100 + 1 / 2"
    using blocks_nonneg [of loc streetName] by simp
  then have e: "100 \<le> math_round (100 + blocks loc streetName * 100)"
    unfolding math_round_def by (simp add: le_floor_iff)
  then have "(10::real) \<le> real_of_int (math_round (100 + blocks loc streetName * 100)) / 10 + 1 / 2"
    by simp
  then have "10 \<le> math_round (real_of_int (math_round (100 + blocks loc streetName * 100)) / 10)"
    unfolding math_round_def [of "real_of_int _ / 10"] by (simp add: le_floor_iff)
  then show ?thesis
    by (simp add: block_estimate_def Let_def)
qed

lemma jitter_range:
  assumes "0 \<le> rnd" and "rnd < 1"
  shows "0 \<le> jitter rnd" and "jitter rnd < 50"
proof -
  from assms(1) show "0 \<le> jitter rnd"
    by (simp add: jitter_def math_floor_def)
  from assms(2) have "rnd * 50 < 50" by simp
  then show "jitter rnd < 50"
    by (simp add: jitter_def math_floor_def floor_less_iff)
qed

text \<open>
  C4. The Grid Estimator's estimate before the jitter is a multiple of 10, the
  jitter added to it is an integer of the half-open interval from 0 to 50 (for
  every value \<open>0 \<le> rnd < 1\<close> that \<open>Math.random()\<close> can return), and the
  result is the decimal rendering of their sum followed by the tag.
\<close>

theorem grid_estimate_multiple_of_10_and_jitter:
  "10 dvd block_estimate loc streetName
   \<and> (0 \<le> rnd \<and> rnd < 1 \<longrightarrow> 0 \<le> jitter rnd \<and> jitter rnd < 50)
   \<and> estimateFromBlock loc streetName rnd
       = int_toString (block_estimate loc streetName + jitter rnd) @ '' (approx)''"
  using jitter_range [of rnd]
  by (simp add: block_estimate_def Let_def estimateFromBlock_def)

lemma isNS_Main_St: "isNS ''Main St'' = False"
  by code_simp

lemma grid_example:
  "block_estimate \<lparr>lat = 34, lng = - 118\<rparr> ''Main St'' = 2710"
  "jitter (1 / 2) = 25"
  "int_toString 2735 = ''2735''"
  by (simp_all add: block_estimate_def blocks_def isNS_Main_St dtLat_def dtLng_def blockSize_def
        math_round_def jitter_def math_floor_def int_toString_def digits10.simps digit_char_def)

theorem grid_estimate_multiple_of_10_and_jitter_witness:
  "(0::real) \<le> 1 / 2 \<and> (1 / 2 :: real) < 1
   \<and> 10 dvd block_estimate \<lparr>lat = 34, lng = - 118\<rparr> ''Main St''
   \<and> block_estimate \<lparr>lat = 34, lng = - 118\<rparr> ''Main St'' = 2710
   \<and> 0 \<le> jitter (1 / 2) \<and> jitter (1 / 2) < 50 \<and> jitter (1 / 2) = 25
   \<and> estimateFromBlock \<lparr>lat = 34, lng = - 118\<rparr> ''Main St'' (1 / 2) = ''2735 (approx)''"
proof -
  have h: "(0::real) \<le> 1 / 2 \<and> (1 / 2 :: real) < 1" by simp
  note t = grid_estimate_multiple_of_10_and_jitter
             [of "\<lparr>lat = 34, lng = - 118\<rparr>" "''Main St''" "1 / 2"]
  from t h have "10 dvd block_estimate \<lparr>lat = 34, lng = - 118\<rparr> ''Main St''"
    and "0 \<le> jitter (1 / 2) \<and> jitter (1 / 2) < 50"
    and "estimateFromBlock \<lparr>lat = 34, lng = - 118\<rparr> ''Main St'' (1 / 2)
         = int_toString (block_estimate \<lparr>lat = 34, lng = - 118\<rparr> ''Main St'' + jitter (1 / 2))
           @ '' (approx)''"
    by blast+
  then show ?thesis
    using h by (simp add: grid_example)
qed

text \<open>
  C10. The numeric part of the Grid Estimator's result is at least 100: the block
  count is not negative, so the estimate rounded to the nearest 10 is at least
  100, and the jitter of a value \<open>0 \<le> rnd\<close> of \<open>Math.random()\<close> is not negative.
\<close>

theorem grid_estimate_at_least_100:
  assumes "0 \<le> rnd"
  shows "0 \<le> blocks loc streetName
         \<and> 100 \<le> block_estimate loc streetName
         \<and> 0 \<le> jitter rnd
         \<and> (\<exists>n. estimateFromBlock loc streetName rnd = int_toString n @ '' (approx)'' \<and> 100 \<le> n)"
proof -
  have j: "0 \<le> jitter rnd"
    using assms by (simp add: jitter_def math_floor_def)
  have b: "100 \<le> block_estimate loc streetName"
    by (rule block_estimate_ge_100)
  from j b have "100 \<le> block_estimate loc streetName + jitter rnd"
    by linarith
  then have "\<exists>n. estimateFromBlock loc streetName rnd = int_toString n @ '' (approx)'' \<and> 100 \<le> n"
    unfolding estimateFromBlock_def by blast
  with j b blocks_nonneg [of loc streetName] show ?thesis
    by blast
qed

theorem grid_estimate_at_least_100_witness:
  "(0::real) \<le> 0
   \<and> 100 \<le> block_estimate \<lparr>lat = dtLat, lng = dtLng\<rparr> ''Main St''
   \<and> (\<exists>n. estimateFromBlock \<lparr>lat = dtLat, lng = dtLng\<rparr> ''Main St'' 0
            = int_toString n @ '' (approx)'' \<and> 100 \<le> n)"
proof -
  have h: "(0::real) \<le> 0" by simp
  from grid_estimate_at_least_100 [OF h, of "\<lparr>lat = dtLat, lng = dtLng\<rparr>" "''Main St''"] h
  show ?thesis by blast
qed

section \<open>\<open>Math.PI\<close> lies below \<open>\<pi>\<close>\<close>

text \<open>
  The partial sums of the arctangent series enclose its value; with Machin's
  formula, twelve terms at \<open>1/5\<close> and three at \<open>1/239\<close> bound \<open>\<pi>\<close> from below
  closely enough.
\<close>

lemma arctan_partial_sums:
  fixes x :: real
  assumes "0 \<le> x" and "x \<le> 1"
  shows "(\<Sum>i<2 * n. (- 1) ^ i * (1 / real (i * 2 + 1) * x ^ (i * 2 + 1))) \<le> arctan x"
    and "arctan x \<le> (\<Sum>i<2 * n + 1. (- 1) ^ i * (1 / real (i * 2 + 1) * x ^ (i * 2 + 1)))"
proof -
  let ?a = "\<lambda>n. 1 / real (n * 2 + 1) * x ^ (n * 2 + 1)"
  have ax: "\<bar>x\<bar> \<le> 1" using assms by simp
  have z: "?a \<longlonglongrightarrow> 0"
    using ax by (rule zeroseq_arctan_series)
  have p: "0 \<le> ?a k" for k
    using assms(1) by simp
  have m: "?a (Suc k) \<le> ?a k" for k
  proof -
    have "x ^ (Suc k * 2 + 1) \<le> x ^ (k * 2 + 1)"
      using assms by (intro power_decreasing) simp_all
    moreover have "1 / real (Suc k * 2 + 1) \<le> 1 / real (k * 2 + 1)"
      by (simp add: field_simps)
    moreover have "0 \<le> x ^ (Suc k * 2 + 1)" "0 \<le> 1 / real (k * 2 + 1)"
      using assms(1) by simp_all
    ultimately show ?thesis
      by (intro mult_mono) simp_all
  qed
  have s: "arctan x = (\<Sum>k. (- 1) ^ k * ?a k)"
    using ax by (rule arctan_series)
  show "(\<Sum>i<2 * n. (- 1) ^ i * ?a i) \<le> arctan x"
    unfolding s using z p m by (rule summable_Leibniz'(2))
  show "arctan x \<le> (\<Sum>i<2 * n + 1. (- 1) ^ i * ?a i)"
    unfolding s using z p m by (rule summable_Leibniz'(4))
qed

lemma first_twelve: "{..<2 * 6} = {0, 1, 2, 3, 4, 5, 6, 7, 8, 9, 10, 11 :: nat}"
  by auto arith

lemma first_three: "{..<2 * 1 + 1} = {0, 1, 2 :: nat}"
  by auto

lemma arctan_fifth_lower:
  "1 / 5 - 1 / (3 * 5 ^ 3) + 1 / (5 * 5 ^ 5) - 1 / (7 * 5 ^ 7) + 1 / (9 * 5 ^ 9)
   - 1 / (11 * 5 ^ 11) + 1 / (13 * 5 ^ 13) - 1 / (15 * 5 ^ 15) + 1 / (17 * 5 ^ 17)
   - 1 / (19 * 5 ^ 19) + 1 / (21 * 5 ^ 21) - 1 / (23 * 5 ^ 23) \<le> arctan (1 / 5 :: real)"
  using arctan_partial_sums(1) [of "1 / 5" 6]
  unfolding first_twelve by (simp add: power_one_over)

lemma arctan_239_upper:
  "arctan (1 / 239 :: real) \<le> 1 / 239 - 1 / (3 * 239 ^ 3) + 1 / (5 * 239 ^ 5)"
  using arctan_partial_sums(2) [of "1 / 239" 1]
  unfolding first_three by (simp add: power_one_over)

lemma math_PI_less_pi: "math_PI < pi"
proof -
  define L :: real where
    "L = 1 / 5 - 1 / (3 * 5 ^ 3) + 1 / (5 * 5 ^ 5) - 1 / (7 * 5 ^ 7) + 1 / (9 * 5 ^ 9)
       - 1 / (11 * 5 ^ 11) + 1 / (13 * 5 ^ 13) - 1 / (15 * 5 ^ 15) + 1 / (17 * 5 ^ 17)
       - 1 / (19 * 5 ^ 19) + 1 / (21 * 5 ^ 21) - 1 / (23 * 5 ^ 23)"
  define U :: real where
    "U = 1 / 239 - 1 / (3 * 239 ^ 3) + 1 / (5 * 239 ^ 5)"
  have l: "L \<le> arctan (1 / 5)"
    unfolding L_def by (rule arctan_fifth_lower)
  have u: "arctan (1 / 239) \<le> U"
    unfolding U_def by (rule arctan_239_upper)
  have m: "pi = 16 * arctan (1 / 5) - 4 * arctan (1 / 239)"
    using machin by simp
  have n: "math_PI < 16 * L - 4 * U"
    unfolding math_PI_def L_def U_def by simp
  from l u m n show ?thesis
    by linarith
qed

lemma math_PI_pos: "0 < math_PI"
  by (simp add: math_PI_def)

lemma cos_half_math_PI_pos: "0 < cos (math_PI / 2)"
proof (rule cos_gt_zero_pi)
  show "- (pi / 2) < math_PI / 2"
    using math_PI_pos pi_gt_zero by linarith
  show "math_PI / 2 < pi / 2"
    using math_PI_less_pi by simp
qed

lemma sin_half_math_PI_pos: "0 < sin (math_PI / 2)"
proof (rule sin_gt_zero)
  show "0 < math_PI / 2"
    using math_PI_pos by simp
  show "math_PI / 2 < pi"
    using math_PI_less_pi pi_gt_zero by linarith
qed

section \<open>Properties of the Address Interpolator\<close>

lemma mk_cand_ref: "mk_cand ip = Some c \<Longrightarrow> ref c = fst ip"
  by (auto simp: mk_cand_def split: prod.splits option.splits)

lemma refs_of_map_filter:
  "map ref (List.map_filter mk_cand ys) = map fst (filter (\<lambda>ip. mk_cand ip \<noteq> None) ys)"
proof (induction ys)
  case Nil
  show ?case by (simp add: List.map_filter_simps)
next
  case (Cons y ys)
  show ?case
  proof (cases "mk_cand y")
    case None
    with Cons show ?thesis by (simp add: List.map_filter_simps)
  next
    case (Some c)
    with Cons mk_cand_ref [OF Some] show ?thesis by (simp add: List.map_filter_simps)
  qed
qed

lemma withNumbers_distinct_refs:
  assumes "withNumbers places = Inr wn"
  shows "distinct (map ref wn)"
proof -
  from assms obtain ps where
    wn: "wn = List.map_filter mk_cand (enumerate 0 (filter has_house_number ps))"
    by (auto simp: withNumbers_def split: option.splits)
  have "distinct (map fst (enumerate 0 (filter has_house_number ps)))"
    by simp
  then have "distinct (map fst (filter (\<lambda>ip. mk_cand ip \<noteq> None)
                 (enumerate 0 (filter has_house_number ps))))"
    by (rule distinct_map_filter)
  then show ?thesis
    by (simp add: wn refs_of_map_filter)
qed

lemma sorted_distinct_refs:
  assumes "distinct (map ref wn)"
  shows "distinct (map ref (sort_key f wn))"
  using assms by (simp add: distinct_map)

lemma two_nearest_not_identical:
  assumes "withNumbers places = Inr wn" and "2 \<le> length wn"
  shows "ref (sort_key f wn ! 0) \<noteq> ref (sort_key f wn ! 1)"
proof -
  let ?s = "sort_key f wn"
  have d: "distinct (map ref ?s)"
    using assms(1) by (intro sorted_distinct_refs withNumbers_distinct_refs)
  have l: "0 < length wn" "1 < length wn"
    using assms(2) by linarith+
  then have l': "0 < length (map ref ?s)" "1 < length (map ref ?s)"
    by simp_all
  have "map ref ?s ! 0 \<noteq> map ref ?s ! 1"
    using d l' nth_eq_iff_index_eq [of "map ref ?s" 0 1] by simp
  then show ?thesis
    using l by simp
qed

lemma hypot_nonneg: "0 \<le> hypot x y"
  by (simp add: hypot_def)

lemma hypot_zero_iff: "hypot x y = 0 \<longleftrightarrow> x = 0 \<and> y = 0"
  by (simp add: hypot_def sum_power2_eq_zero_iff)

lemma hypot_half: "hypot (x / 2) (y / 2) = hypot x y / 2"
proof -
  have "(x / 2)\<^sup>2 + (y / 2)\<^sup>2 = (x\<^sup>2 + y\<^sup>2) / 4"
    by (simp add: power2_eq_square field_simps)
  then have "hypot (x / 2) (y / 2) = sqrt ((x\<^sup>2 + y\<^sup>2) / 4)"
    by (simp add: hypot_def)
  also have "\<dots> = sqrt (x\<^sup>2 + y\<^sup>2) / sqrt 4"
    by (rule real_sqrt_divide)
  finally show ?thesis
    by (simp add: hypot_def)
qed

lemma hypot_minus: "hypot (- x) (- y) = hypot x y"
  by (simp add: hypot_def)

text \<open>The clamp: a quotient of distances that is not \<open>NaN\<close> ends in the unit interval.\<close>

lemma clamp_Num: "math_min 1 (math_max 0 (Num q)) = Num (min 1 (max 0 q))"
  by simp

lemma ratio_cases:
  "ratio loc p1 p2 = NaN \<and> hypot (lat p2 - lat p1) (lng p2 - lng p1) = 0
                         \<and> hypot (lat loc - lat p1) (lng loc - lng p1) = 0
   \<or> (\<exists>r. ratio loc p1 p2 = Num r \<and> 0 \<le> r \<and> r \<le> 1)"
proof (cases "hypot (lat p2 - lat p1) (lng p2 - lng p1) = 0")
  case False
  then show ?thesis
    by (simp add: ratio_def js_div_def Let_def)
next
  case True
  show ?thesis
  proof (cases "hypot (lat loc - lat p1) (lng loc - lng p1) = 0")
    case True
    with \<open>hypot (lat p2 - lat p1) (lng p2 - lng p1) = 0\<close> show ?thesis
      by (simp add: ratio_def js_div_def Let_def)
  next
    case False
    with hypot_nonneg [of "lat loc - lat p1" "lng loc - lng p1"]
    have "0 < hypot (lat loc - lat p1) (lng loc - lng p1)" by linarith
    with True show ?thesis
      by (simp add: ratio_def js_div_def Let_def)
  qed
qed

lemma adjust_cases: "adjust sd v = v \<or> adjust sd v = js_incr v"
  by (simp add: adjust_def)

lemma interpolate_try_two:
  assumes "withNumbers places = Inr wn" and "2 \<le> length wn"
  shows "interpolate_try loc streetName (Places places) rnd
         = Inr (num_toString
                  (adjust (side loc (sort_key (dist_to loc) wn ! 0) (sort_key (dist_to loc) wn ! 1))
                     (interpolated loc (sort_key (dist_to loc) wn ! 0)
                        (sort_key (dist_to loc) wn ! 1))))"
proof -
  have l: "\<not> length wn < 2" "1 < length wn"
    using assms(2) by linarith+
  have r: "ref (sort_key (dist_to loc) wn ! 0) \<noteq> ref (sort_key (dist_to loc) wn ! 1)"
    using assms by (rule two_nearest_not_identical)
  show ?thesis
    using l r by (simp add: interpolate_try_def assms(1) Let_def)
qed

lemma interpolateAddress_two:
  assumes "withNumbers places = Inr wn" and "2 \<le> length wn"
  shows "interpolateAddress loc streetName (Places places) rnd
         = Inr (num_toString
                  (adjust (side loc (sort_key (dist_to loc) wn ! 0) (sort_key (dist_to loc) wn ! 1))
                     (interpolated loc (sort_key (dist_to loc) wn ! 0)
                        (sort_key (dist_to loc) wn ! 1))))"
  by (simp add: interpolateAddress_def interpolate_try_two [OF assms])

text \<open>
  C3. When fewer than two of the places returned by the search have a house
  number that \<open>parseInt\<close> reads (none or one candidate remains), the
  interpolator returns the Grid Estimator's result, and that string ends with
  the tag \<open>(approx)\<close>.
\<close>

theorem fewer_than_two_candidates_fall_back:
  assumes "withNumbers places = Inr wn" and "length wn < 2"
  shows "interpolateAddress loc streetName (Places places) rnd
           = Inr (estimateFromBlock loc streetName rnd)
         \<and> suffix ''(approx)'' (estimateFromBlock loc streetName rnd)"
  using assms estimateFromBlock_tagged [of loc streetName rnd]
  by (simp add: interpolateAddress_def interpolate_try_def)

lemma those_null: "None \<in> set xs \<Longrightarrow> those xs = None"
  by (induction xs) (auto split: option.splits)

lemma interpolate_try_nonempty:
  "interpolate_try loc streetName res rnd = Inr s \<Longrightarrow> s \<noteq> []"
  by (auto simp: interpolate_try_def Let_def estimateFromBlock_nonempty int_toString_nonempty
        num_toString_nonempty split: search_result.splits sum.splits if_splits)

lemma interpolateAddress_returns: "\<exists>s. interpolateAddress loc streetName res rnd = Inr s \<and> s \<noteq> []"
proof (cases "interpolate_try loc streetName res rnd")
  case (Inl e)
  then show ?thesis
    by (simp add: interpolateAddress_def estimateFromBlock_nonempty)
next
  case (Inr s)
  with interpolate_try_nonempty [OF Inr] show ?thesis
    by (simp add: interpolateAddress_def)
qed

text \<open>
  For every coordinate, street name, search outcome and random draw, the
  interpolator returns a string that is not empty and raises nothing to its
  caller (the result is never \<open>Inl\<close>); every exception of the body (the request
  fails, the body is not JSON, the value is not an array or holds \<open>null\<close>) is
  replaced by the Grid Estimator's result. Arithmetic throws nothing in the
  source: a division by zero gives an infinity or \<open>NaN\<close>, which the body carries
  on and the \<open>catch\<close> clause never sees.
\<close>

lemma interpolateAddress_total_nonempty:
  "(\<exists>s. interpolateAddress loc streetName res rnd = Inr s \<and> s \<noteq> [])
   \<and> (\<forall>e. interpolate_try loc streetName res rnd = Inl e
          \<longrightarrow> interpolateAddress loc streetName res rnd = Inr (estimateFromBlock loc streetName rnd))
   \<and> interpolate_try loc streetName FetchFailed rnd = Inl NetworkError
   \<and> interpolate_try loc streetName InvalidJson rnd = Inl SyntaxError
   \<and> interpolate_try loc streetName NotAnArray rnd = Inl TypeError
   \<and> (None \<in> set places \<longrightarrow>
        interpolate_try loc streetName (Places places) rnd = Inl TypeError)"
proof -
  have "\<forall>e. interpolate_try loc streetName res rnd = Inl e
          \<longrightarrow> interpolateAddress loc streetName res rnd = Inr (estimateFromBlock loc streetName rnd)"
    by (simp add: interpolateAddress_def)
  moreover have "None \<in> set places \<longrightarrow>
        interpolate_try loc streetName (Places places) rnd = Inl TypeError"
    by (simp add: interpolate_try_def withNumbers_def those_null)
  ultimately show ?thesis
    using interpolateAddress_returns [of loc streetName res rnd]
    by (simp add: interpolate_try_def)
qed

lemma sort_two_equidistant:
  assumes "f c1 = f c2"
  shows "sort_key f [c1, c2] = [c1, c2]"
  using assms by simp

text \<open>
  On a proper segment: when exactly two candidates remain, at two different
  positions, and the target is the midpoint of the segment between them, the
  estimate before the parity adjustment is the rounded average of the two
  numbers, and the interpolator returns it as it is or incremented by one, as the
  side convention decides.
\<close>

lemma midpoint_gives_rounded_average:
  assumes wn: "withNumbers places = Inr [c1, c2]"
    and apart: "lat c1 \<noteq> lat c2 \<or> lng c1 \<noteq> lng c2"
    and mid: "lat loc = (lat c1 + lat c2) / 2" "lng loc = (lng c1 + lng c2) / 2"
  shows "interpolated loc c1 c2 = Num (real_of_int (math_round ((real_of_int (num c1) + real_of_int (num c2)) / 2)))
       \<and> interpolateAddress loc streetName (Places places) rnd
           = Inr (num_toString (adjust (side loc c1 c2) (interpolated loc c1 c2)))
       \<and> (interpolateAddress loc streetName (Places places) rnd
            = Inr (int_toString (math_round ((real_of_int (num c1) + real_of_int (num c2)) / 2)))
          \<or> interpolateAddress loc streetName (Places places) rnd
            = Inr (int_toString (math_round ((real_of_int (num c1) + real_of_int (num c2)) / 2) + 1)))"
proof -
  let ?T = "hypot (lat c2 - lat c1) (lng c2 - lng c1)"
  let ?r = "math_round ((real_of_int (num c1) + real_of_int (num c2)) / 2)"
  have d1: "lat loc - lat c1 = (lat c2 - lat c1) / 2" "lng loc - lng c1 = (lng c2 - lng c1) / 2"
    using mid by (simp_all add: field_simps)
  have d2: "lat c2 - lat loc = (lat c2 - lat c1) / 2" "lng c2 - lng loc = (lng c2 - lng c1) / 2"
    using mid by (simp_all add: field_simps)
  have our: "hypot (lat loc - lat c1) (lng loc - lng c1) = ?T / 2"
    unfolding d1 by (rule hypot_half)
  have "dist_to loc c1 = hypot (- (lat loc - lat c1)) (- (lng loc - lng c1))"
    by (simp add: dist_to_def)
  also have "\<dots> = ?T / 2"
    unfolding hypot_minus by (rule our)
  finally have e1: "dist_to loc c1 = ?T / 2" .
  have e2: "dist_to loc c2 = ?T / 2"
    unfolding dist_to_def d2 by (rule hypot_half)
  have srt: "sort_key (dist_to loc) [c1, c2] = [c1, c2]"
    by (rule sort_two_equidistant) (simp add: e1 e2)
  have Tpos: "?T \<noteq> 0"
    using apart by (auto simp: hypot_zero_iff)
  have rat: "ratio loc c1 c2 = Num (1 / 2)"
    using Tpos by (simp add: ratio_def our js_div_def Let_def)
  have lin: "real_of_int (num c1) + real_of_int (num c2 - num c1) * (1 / 2)
        = (real_of_int (num c1) + real_of_int (num c2)) / 2"
    by (simp add: field_simps)
  have intp: "interpolated loc c1 c2 = Num (real_of_int ?r)"
    unfolding interpolated_def rat by (simp only: js_mul.simps js_add.simps js_round.simps lin)
  have res: "interpolateAddress loc streetName (Places places) rnd
           = Inr (num_toString (adjust (side loc c1 c2) (interpolated loc c1 c2)))"
  proof -
    have two: "2 \<le> length [c1, c2]" by simp
    show ?thesis
      using interpolateAddress_two [OF wn two, of loc streetName rnd, unfolded srt] by simp
  qed
  have "adjust (side loc c1 c2) (Num (real_of_int ?r)) = Num (real_of_int ?r)
        \<or> adjust (side loc c1 c2) (Num (real_of_int ?r)) = Num (real_of_int ?r + 1)"
    using adjust_cases [of "side loc c1 c2" "Num (real_of_int ?r)"] by simp
  then have "num_toString (adjust (side loc c1 c2) (interpolated loc c1 c2)) = int_toString ?r
        \<or> num_toString (adjust (side loc c1 c2) (interpolated loc c1 c2)) = int_toString (?r + 1)"
  proof
    assume "adjust (side loc c1 c2) (Num (real_of_int ?r)) = Num (real_of_int ?r)"
    then show ?thesis by (simp add: intp)
  next
    assume a: "adjust (side loc c1 c2) (Num (real_of_int ?r)) = Num (real_of_int ?r + 1)"
    have "\<lfloor>real_of_int ?r + 1\<rfloor> = ?r + 1" by linarith
    with a show ?thesis by (simp add: intp)
  qed
  with res intp show ?thesis
    by simp
qed

lemma parseInt_100: "parseInt ''100'' = Some 100"
  by code_simp
lemma parseInt_200: "parseInt ''200'' = Some 200"
  by code_simp
lemma parseInt_abc: "parseInt ''abc'' = None"
  by code_simp

lemma withNumbers_two_places:
  "withNumbers [place_at ''100'' a b, place_at ''200'' c d]
   = Inr [\<lparr>lat = a, lng = b, ref = 0, num = 100\<rparr>, \<lparr>lat = c, lng = d, ref = 1, num = 200\<rparr>]"
  by (simp add: withNumbers_def place_at_def empty_address_def has_house_number_def truthy_def
        List.map_filter_simps enumerate_eq_zip mk_cand_def parseInt_100 parseInt_200)

lemma withNumbers_one_valid:
  "withNumbers [place_at ''abc'' a b, place_at ''100'' c d]
   = Inr [\<lparr>lat = c, lng = d, ref = 1, num = 100\<rparr>]"
  by (simp add: withNumbers_def place_at_def empty_address_def has_house_number_def truthy_def
        List.map_filter_simps enumerate_eq_zip mk_cand_def parseInt_100 parseInt_abc)

lemma hypot_0_right: "hypot x 0 = \<bar>x\<bar>"
  by (simp add: hypot_def)

lemma hypot_0_left: "hypot 0 y = \<bar>y\<bar>"
  by (simp add: hypot_def)

lemma hypot_3_4: "hypot 4 (- 3) = 5"
proof -
  have "(4::real)\<^sup>2 + (- 3)\<^sup>2 = 5\<^sup>2" by simp
  then have "hypot 4 (- 3) = sqrt (5\<^sup>2)"
    by (simp only: hypot_def)
  then show ?thesis by simp
qed

lemma int_toString_175: "int_toString 175 = ''175''"
  by code_simp
lemma int_toString_151: "int_toString 151 = ''151''"
  by code_simp

text \<open>
  Candidates 100 at (34, -118) and 200 at (38, -118), target at the midpoint
  (36, -118): the bearing is 0, \<open>Math.cos(Math.PI / 2)\<close> is positive, so the side
  is 1 and the even estimate 150 is incremented.
\<close>

lemma midpoint_example:
  "side \<lparr>lat = 36, lng = - 118\<rparr> \<lparr>lat = 34, lng = - 118, ref = 0, num = 100\<rparr>
        \<lparr>lat = 38, lng = - 118, ref = 1, num = 200\<rparr> = 1
   \<and> interpolateAddress \<lparr>lat = 36, lng = - 118\<rparr> ''Main St''
         (Places [place_at ''100'' 34 (- 118), place_at ''200'' 38 (- 118)]) 0 = Inr ''151''"
proof -
  let ?c1 = "\<lparr>lat = 34, lng = - 118, ref = 0, num = 100\<rparr>"
  let ?c2 = "\<lparr>lat = 38, lng = - 118, ref = 1, num = 200\<rparr>"
  let ?ps = "[place_at ''100'' 34 (- 118), place_at ''200'' 38 (- 118)]"
  let ?loc = "\<lparr>lat = 36, lng = - 118\<rparr>"
  have wn: "withNumbers ?ps = Inr [?c1, ?c2]"
    by (rule withNumbers_two_places)
  have apart: "lat ?c1 \<noteq> lat ?c2 \<or> lng ?c1 \<noteq> lng ?c2" by simp
  have m1: "lat ?loc = (lat ?c1 + lat ?c2) / 2" by simp
  have m2: "lng ?loc = (lng ?c1 + lng ?c2) / 2" by simp
  have r: "math_round ((real_of_int (num ?c1) + real_of_int (num ?c2)) / 2) = 150"
    by (simp add: math_round_def)
  note t = midpoint_gives_rounded_average [OF wn apart m1 m2, of "''Main St''" 0, unfolded r]
  from t have intp: "interpolated ?loc ?c1 ?c2 = Num (real_of_int 150)"
    by (rule conjunct1)
  from t have res: "interpolateAddress ?loc ''Main St'' (Places ?ps) 0
      = Inr (num_toString (adjust (side ?loc ?c1 ?c2) (interpolated ?loc ?c1 ?c2)))"
    by (rule conjunct2 [THEN conjunct1])
  have sd: "side ?loc ?c1 ?c2 = 1"
    using cos_half_math_PI_pos by (simp add: side_def atan2_def sgn_if)
  have "adjust 1 (Num (real_of_int 150)) = Num 151"
    by (simp add: adjust_def trunc_def)
  then have "num_toString (adjust (side ?loc ?c1 ?c2) (interpolated ?loc ?c1 ?c2)) = ''151''"
    unfolding sd intp by (simp add: int_toString_151)
  with res sd show ?thesis
    by simp
qed

lemma degenerate_returns_NaN:
  "ratio \<lparr>lat = 34, lng = - 118\<rparr> \<lparr>lat = 34, lng = - 118, ref = 0, num = 100\<rparr>
         \<lparr>lat = 34, lng = - 118, ref = 1, num = 200\<rparr> = NaN
   \<and> interpolateAddress \<lparr>lat = 34, lng = - 118\<rparr> ''Main St''
        (Places [place_at ''100'' 34 (- 118), place_at ''200'' 34 (- 118)]) 0 = Inr ''NaN''"
proof -
  let ?c1 = "\<lparr>lat = 34, lng = - 118, ref = 0, num = 100\<rparr>"
  let ?c2 = "\<lparr>lat = 34, lng = - 118, ref = 1, num = 200\<rparr>"
  let ?loc = "\<lparr>lat = 34, lng = - 118\<rparr>"
  have wn: "withNumbers [place_at ''100'' 34 (- 118), place_at ''200'' 34 (- 118)] = Inr [?c1, ?c2]"
    by (rule withNumbers_two_places)
  have two: "2 \<le> length [?c1, ?c2]" by simp
  have srt: "sort_key (dist_to ?loc) [?c1, ?c2] = [?c1, ?c2]"
    by (rule sort_two_equidistant) (simp add: dist_to_def)
  have rat: "ratio ?loc ?c1 ?c2 = NaN"
    by (simp add: ratio_def hypot_0_left js_div_def)
  have "interpolated ?loc ?c1 ?c2 = NaN"
    unfolding interpolated_def rat by simp
  then have "num_toString (adjust (side ?loc ?c1 ?c2) (interpolated ?loc ?c1 ?c2)) = ''NaN''"
    by (simp only: adjust_def js_rem2.simps jsnum.distinct if_False simp_thms num_toString.simps)
  with interpolateAddress_two [OF wn two, of ?loc "''Main St''" 0, unfolded srt] rat
  show ?thesis by simp
qed

lemma off_line_example:
  "ratio \<lparr>lat = 34, lng = - 115\<rparr> \<lparr>lat = 34, lng = - 118, ref = 0, num = 100\<rparr>
         \<lparr>lat = 38, lng = - 118, ref = 1, num = 200\<rparr> = Num (3 / 4)
   \<and> spec_projected_ratio \<lparr>lat = 34, lng = - 115\<rparr> \<lparr>lat = 34, lng = - 118, ref = 0, num = 100\<rparr>
         \<lparr>lat = 38, lng = - 118, ref = 1, num = 200\<rparr> = 0
   \<and> interpolated \<lparr>lat = 34, lng = - 115\<rparr> \<lparr>lat = 34, lng = - 118, ref = 0, num = 100\<rparr>
         \<lparr>lat = 38, lng = - 118, ref = 1, num = 200\<rparr> = Num 175
   \<and> spec_estimate \<lparr>lat = 34, lng = - 115\<rparr> \<lparr>lat = 34, lng = - 118, ref = 0, num = 100\<rparr>
         \<lparr>lat = 38, lng = - 118, ref = 1, num = 200\<rparr> = 100
   \<and> interpolateAddress \<lparr>lat = 34, lng = - 115\<rparr> ''Main St''
        (Places [place_at ''100'' 34 (- 118), place_at ''200'' 38 (- 118)]) 0 = Inr ''175''"
proof -
  let ?c1 = "\<lparr>lat = 34, lng = - 118, ref = 0, num = 100\<rparr>"
  let ?c2 = "\<lparr>lat = 38, lng = - 118, ref = 1, num = 200\<rparr>"
  let ?loc = "\<lparr>lat = 34, lng = - 115\<rparr>"
  have wn: "withNumbers [place_at ''100'' 34 (- 118), place_at ''200'' 38 (- 118)] = Inr [?c1, ?c2]"
    by (rule withNumbers_two_places)
  have two: "2 \<le> length [?c1, ?c2]" by simp
  have srt: "sort_key (dist_to ?loc) [?c1, ?c2] = [?c1, ?c2]"
    by (simp add: dist_to_def hypot_0_left hypot_3_4)
  have rat: "ratio ?loc ?c1 ?c2 = Num (3 / 4)"
    by (simp add: ratio_def hypot_0_left hypot_0_right js_div_def)
  have sp: "spec_projected_ratio ?loc ?c1 ?c2 = 0"
    by (simp add: spec_projected_ratio_def)
  have intp: "interpolated ?loc ?c1 ?c2 = Num 175"
    unfolding interpolated_def rat by (simp add: math_round_def)
  have se: "spec_estimate ?loc ?c1 ?c2 = 100"
    unfolding spec_estimate_def sp by (simp add: math_round_def)
  have sd: "side ?loc ?c1 ?c2 = 1"
    using sin_half_math_PI_pos by (simp add: side_def atan2_def sgn_if)
  have "adjust 1 (Num 175) = Num 175"
    by (simp add: adjust_def trunc_def)
  then have "num_toString (adjust (side ?loc ?c1 ?c2) (interpolated ?loc ?c1 ?c2)) = ''175''"
    unfolding sd intp by (simp add: int_toString_175)
  with interpolateAddress_two [OF wn two, of ?loc "''Main St''" 0, unfolded srt] rat sp intp se
  show ?thesis by simp
qed

theorem fewer_than_two_candidates_fall_back_witness:
  "withNumbers [place_at ''abc'' 34 (- 118), place_at ''100'' 38 (- 118)]
     = Inr [\<lparr>lat = 38, lng = - 118, ref = 1, num = 100\<rparr>]
   \<and> length [\<lparr>lat = 38, lng = - 118, ref = 1, num = 100\<rparr>] < 2
   \<and> interpolateAddress \<lparr>lat = 36, lng = - 118\<rparr> ''Main St''
        (Places [place_at ''abc'' 34 (- 118), place_at ''100'' 38 (- 118)]) 0
      = Inr (estimateFromBlock \<lparr>lat = 36, lng = - 118\<rparr> ''Main St'' 0)
   \<and> suffix ''(approx)'' (estimateFromBlock \<lparr>lat = 36, lng = - 118\<rparr> ''Main St'' 0)"
proof -
  have wn: "withNumbers [place_at ''abc'' 34 (- 118), place_at ''100'' 38 (- 118)]
              = Inr [\<lparr>lat = 38, lng = - 118, ref = 1, num = 100\<rparr>]"
    by (rule withNumbers_one_valid)
  have len: "length [\<lparr>lat = 38, lng = - 118, ref = 1, num = 100\<rparr>] < 2"
    by simp
  from fewer_than_two_candidates_fall_back
         [OF wn len, of "\<lparr>lat = 36, lng = - 118\<rparr>" "''Main St''" 0] wn len
  show ?thesis by blast
qed

lemma convex_between:
  fixes a b r :: real
  assumes "0 \<le> r" and "r \<le> 1"
  shows "min a b \<le> a + (b - a) * r" and "a + (b - a) * r \<le> max a b"
proof -
  have "a + (b - a) * r = (1 - r) * a + r * b"
    by (simp add: algebra_simps)
  moreover have "(1 - r) * min a b \<le> (1 - r) * a" "r * min a b \<le> r * b"
    using assms by (simp_all add: mult_left_mono)
  moreover have "(1 - r) * a \<le> (1 - r) * max a b" "r * b \<le> r * max a b"
    using assms by (simp_all add: mult_left_mono)
  moreover have "(1 - r) * min a b + r * min a b = min a b"
    "(1 - r) * max a b + r * max a b = max a b"
    by (simp_all add: algebra_simps)
  ultimately show "min a b \<le> a + (b - a) * r" and "a + (b - a) * r \<le> max a b"
    by linarith+
qed

lemma math_round_between:
  fixes m M :: int
  assumes "real_of_int m \<le> x" and "x \<le> real_of_int M"
  shows "m \<le> math_round x" and "math_round x \<le> M"
proof -
  from assms(1) have "real_of_int m \<le> x + 1 / 2" by simp
  then show "m \<le> math_round x"
    by (simp add: math_round_def le_floor_iff)
  from assms(2) have "x + 1 / 2 < real_of_int M + 1" by simp
  then show "math_round x \<le> M"
    by (simp add: math_round_def floor_le_iff)
qed

text \<open>
  Outside the case where both nearest candidates lie on the target itself, the
  ratio is a number of the unit interval, the estimate lies between the two
  numbers, and the result is the estimate or the estimate plus one.
\<close>

lemma clamped_interpolation_within_bounds:
  assumes "ratio loc p1 p2 \<noteq> NaN"
  shows "\<exists>r k. ratio loc p1 p2 = Num r \<and> 0 \<le> r \<and> r \<le> 1
           \<and> interpolated loc p1 p2 = Num (real_of_int k)
           \<and> min (num p1) (num p2) \<le> k \<and> k \<le> max (num p1) (num p2)
           \<and> (adjust (side loc p1 p2) (interpolated loc p1 p2) = Num (real_of_int k)
              \<or> adjust (side loc p1 p2) (interpolated loc p1 p2) = Num (real_of_int (k + 1)))"
proof -
  from ratio_cases [of loc p1 p2] assms obtain r where
    r: "ratio loc p1 p2 = Num r" "0 \<le> r" "r \<le> 1"
    by auto
  let ?x = "real_of_int (num p1) + (real_of_int (num p2) - real_of_int (num p1)) * r"
  let ?k = "math_round ?x"
  have i: "interpolated loc p1 p2 = Num (real_of_int ?k)"
    by (simp add: interpolated_def r(1))
  have "min (real_of_int (num p1)) (real_of_int (num p2)) \<le> ?x"
    "?x \<le> max (real_of_int (num p1)) (real_of_int (num p2))"
    using convex_between [OF r(2,3)] by simp_all
  then have "real_of_int (min (num p1) (num p2)) \<le> ?x" "?x \<le> real_of_int (max (num p1) (num p2))"
    by (simp_all only: of_int_min of_int_max)
  then have b: "min (num p1) (num p2) \<le> ?k" "?k \<le> max (num p1) (num p2)"
    by (rule math_round_between)+
  have "adjust (side loc p1 p2) (Num (real_of_int ?k)) = Num (real_of_int ?k)
        \<or> adjust (side loc p1 p2) (Num (real_of_int ?k)) = Num (real_of_int (?k + 1))"
    using adjust_cases [of "side loc p1 p2" "Num (real_of_int ?k)"] by simp
  with r i b show ?thesis
    by (metis (no_types, lifting))
qed

text \<open>
  C2, as amended. For the two nearest candidates \<open>p1\<close> and \<open>p2\<close>, at different
  positions, the ratio is the distance from \<open>p1\<close> to the target divided by the
  length of the segment from \<open>p1\<close> to \<open>p2\<close> (not the position of the target's
  projection on the segment), clamped to the unit interval; the estimate before
  the parity adjustment is \<open>Math.round(p1.num + (p2.num - p1.num) * ratio)\<close>, and
  the result is that estimate after the parity adjustment.
\<close>

theorem ratio_is_clamped_distance_quotient:
  assumes wn: "withNumbers places = Inr wn" and two: "2 \<le> length wn"
    and p1: "p1 = sort_key (dist_to loc) wn ! 0" and p2: "p2 = sort_key (dist_to loc) wn ! 1"
    and apart: "lat p1 \<noteq> lat p2 \<or> lng p1 \<noteq> lng p2"
  shows "ratio loc p1 p2
           = Num (min 1 (max 0 (hypot (lat loc - lat p1) (lng loc - lng p1)
                                / hypot (lat p2 - lat p1) (lng p2 - lng p1))))
       \<and> interpolated loc p1 p2
           = Num (real_of_int (math_round (real_of_int (num p1) + real_of_int (num p2 - num p1)
                * min 1 (max 0 (hypot (lat loc - lat p1) (lng loc - lng p1)
                                / hypot (lat p2 - lat p1) (lng p2 - lng p1))))))
       \<and> interpolateAddress loc streetName (Places places) rnd
           = Inr (num_toString (adjust (side loc p1 p2) (interpolated loc p1 p2)))"
proof -
  have T: "hypot (lat p2 - lat p1) (lng p2 - lng p1) \<noteq> 0"
    using apart by (auto simp: hypot_zero_iff)
  then have rat: "ratio loc p1 p2
           = Num (min 1 (max 0 (hypot (lat loc - lat p1) (lng loc - lng p1)
                                / hypot (lat p2 - lat p1) (lng p2 - lng p1))))"
    by (simp add: ratio_def js_div_def Let_def)
  have intp: "interpolated loc p1 p2
           = Num (real_of_int (math_round (real_of_int (num p1) + real_of_int (num p2 - num p1)
                * min 1 (max 0 (hypot (lat loc - lat p1) (lng loc - lng p1)
                                / hypot (lat p2 - lat p1) (lng p2 - lng p1))))))"
    unfolding interpolated_def rat by (simp only: js_mul.simps js_add.simps js_round.simps)
  have res: "interpolateAddress loc streetName (Places places) rnd
           = Inr (num_toString (adjust (side loc p1 p2) (interpolated loc p1 p2)))"
    unfolding p1 p2 by (rule interpolateAddress_two [OF wn two])
  from rat intp res show ?thesis
    by (intro conjI)
qed

theorem ratio_is_clamped_distance_quotient_witness:
  "withNumbers [place_at ''100'' 34 (- 118), place_at ''200'' 38 (- 118)]
     = Inr [\<lparr>lat = 34, lng = - 118, ref = 0, num = 100\<rparr>, \<lparr>lat = 38, lng = - 118, ref = 1, num = 200\<rparr>]
   \<and> sort_key (dist_to \<lparr>lat = 34, lng = - 115\<rparr>)
        [\<lparr>lat = 34, lng = - 118, ref = 0, num = 100\<rparr>, \<lparr>lat = 38, lng = - 118, ref = 1, num = 200\<rparr>]
     = [\<lparr>lat = 34, lng = - 118, ref = 0, num = 100\<rparr>, \<lparr>lat = 38, lng = - 118, ref = 1, num = 200\<rparr>]
   \<and> (34::real) \<noteq> 38
   \<and> ratio \<lparr>lat = 34, lng = - 115\<rparr> \<lparr>lat = 34, lng = - 118, ref = 0, num = 100\<rparr>
        \<lparr>lat = 38, lng = - 118, ref = 1, num = 200\<rparr>
      = Num (min 1 (max 0 (hypot (34 - 34) (- 115 - - 118) / hypot (38 - 34) (- 118 - - 118))))
   \<and> interpolateAddress \<lparr>lat = 34, lng = - 115\<rparr> ''Main St''
        (Places [place_at ''100'' 34 (- 118), place_at ''200'' 38 (- 118)]) 0
      = Inr (num_toString (adjust
          (side \<lparr>lat = 34, lng = - 115\<rparr> \<lparr>lat = 34, lng = - 118, ref = 0, num = 100\<rparr>
             \<lparr>lat = 38, lng = - 118, ref = 1, num = 200\<rparr>)
          (interpolated \<lparr>lat = 34, lng = - 115\<rparr> \<lparr>lat = 34, lng = - 118, ref = 0, num = 100\<rparr>
             \<lparr>lat = 38, lng = - 118, ref = 1, num = 200\<rparr>)))"
proof -
  let ?c1 = "\<lparr>lat = 34, lng = - 118, ref = 0, num = 100\<rparr>"
  let ?c2 = "\<lparr>lat = 38, lng = - 118, ref = 1, num = 200\<rparr>"
  let ?loc = "\<lparr>lat = 34, lng = - 115\<rparr>"
  let ?ps = "[place_at ''100'' 34 (- 118), place_at ''200'' 38 (- 118)]"
  have wn: "withNumbers ?ps = Inr [?c1, ?c2]"
    by (rule withNumbers_two_places)
  have two: "2 \<le> length [?c1, ?c2]" by simp
  have srt: "sort_key (dist_to ?loc) [?c1, ?c2] = [?c1, ?c2]"
    by (simp add: dist_to_def hypot_0_left hypot_3_4)
  have p1: "?c1 = sort_key (dist_to ?loc) [?c1, ?c2] ! 0"
    unfolding srt by simp
  have p2: "?c2 = sort_key (dist_to ?loc) [?c1, ?c2] ! 1"
    unfolding srt by simp
  have apart: "lat ?c1 \<noteq> lat ?c2 \<or> lng ?c1 \<noteq> lng ?c2" by simp
  have ne: "(34::real) \<noteq> 38" by simp
  note t = ratio_is_clamped_distance_quotient [OF wn two p1 p2 apart, of "''Main St''" 0]
  have sel: "lat ?loc = 34" "lng ?loc = - 115" "lat ?c1 = 34" "lng ?c1 = - 118"
    "lat ?c2 = 38" "lng ?c2 = - 118"
    by simp_all
  from t have "ratio ?loc ?c1 ?c2
      = Num (min 1 (max 0 (hypot (34 - 34) (- 115 - - 118) / hypot (38 - 34) (- 118 - - 118))))"
    unfolding sel by (rule conjunct1)
  moreover from t have "interpolateAddress ?loc ''Main St'' (Places ?ps) 0
      = Inr (num_toString (adjust (side ?loc ?c1 ?c2) (interpolated ?loc ?c1 ?c2)))"
    by (rule conjunct2 [THEN conjunct2])
  ultimately show ?thesis
    using wn srt ne by (intro conjI)
qed

text \<open>
  C2 as stated fails. With candidates 100 at (34, -118) and 200 at (38, -118) and
  the target at (34, -115), off the line, the code's ratio is 3/4 and the
  estimate is 175, where the projection of the target on the segment is \<open>p1\<close>
  itself: the projected ratio is 0 and the estimate it gives is 100.
\<close>

theorem ratio_is_not_projection_counterexample:
  "ratio \<lparr>lat = 34, lng = - 115\<rparr> \<lparr>lat = 34, lng = - 118, ref = 0, num = 100\<rparr>
         \<lparr>lat = 38, lng = - 118, ref = 1, num = 200\<rparr> = Num (3 / 4)
   \<and> spec_projected_ratio \<lparr>lat = 34, lng = - 115\<rparr> \<lparr>lat = 34, lng = - 118, ref = 0, num = 100\<rparr>
         \<lparr>lat = 38, lng = - 118, ref = 1, num = 200\<rparr> = 0
   \<and> interpolated \<lparr>lat = 34, lng = - 115\<rparr> \<lparr>lat = 34, lng = - 118, ref = 0, num = 100\<rparr>
         \<lparr>lat = 38, lng = - 118, ref = 1, num = 200\<rparr> = Num 175
   \<and> spec_estimate \<lparr>lat = 34, lng = - 115\<rparr> \<lparr>lat = 34, lng = - 118, ref = 0, num = 100\<rparr>
         \<lparr>lat = 38, lng = - 118, ref = 1, num = 200\<rparr> = 100
   \<and> interpolateAddress \<lparr>lat = 34, lng = - 115\<rparr> ''Main St''
        (Places [place_at ''100'' 34 (- 118), place_at ''200'' 38 (- 118)]) 0 = Inr ''175''"
  by (rule off_line_example)

lemma degenerate_try_returns_NaN:
  "interpolate_try \<lparr>lat = 34, lng = - 118\<rparr> ''Main St''
     (Places [place_at ''100'' 34 (- 118), place_at ''200'' 34 (- 118)]) 0 = Inr ''NaN''"
proof (cases "interpolate_try \<lparr>lat = 34, lng = - 118\<rparr> ''Main St''
     (Places [place_at ''100'' 34 (- 118), place_at ''200'' 34 (- 118)]) 0")
  case (Inl e)
  then have "interpolateAddress \<lparr>lat = 34, lng = - 118\<rparr> ''Main St''
      (Places [place_at ''100'' 34 (- 118), place_at ''200'' 34 (- 118)]) 0
      = Inr (estimateFromBlock \<lparr>lat = 34, lng = - 118\<rparr> ''Main St'' 0)"
    by (simp add: interpolateAddress_def)
  with degenerate_returns_NaN have "estimateFromBlock \<lparr>lat = 34, lng = - 118\<rparr> ''Main St'' 0 = ''NaN''"
    by simp
  then show ?thesis
    by (simp add: estimateFromBlock_def)
next
  case (Inr s)
  with degenerate_returns_NaN show ?thesis
    by (simp add: interpolateAddress_def)
qed

lemma grid_at_degenerate:
  "estimateFromBlock \<lparr>lat = 34, lng = - 118\<rparr> ''Main St'' 0 = ''2710 (approx)''"
  by (simp add: estimateFromBlock_def grid_example(1) jitter_def math_floor_def int_toString_def
        digits10.simps digit_char_def)


text \<open>
  C5 fails on the code. At the same input the arithmetic fails (0 / 0 is \<open>NaN\<close>)
  and nothing is thrown: the body of the \<open>try\<close> block returns the text \<open>NaN\<close>,
  the \<open>catch\<close> clause is not entered, and the result is not the Grid Estimator's
  result, which is \<open>2710 (approx)\<close> there.
\<close>

theorem arithmetic_failure_is_not_replaced:
  "ratio \<lparr>lat = 34, lng = - 118\<rparr> \<lparr>lat = 34, lng = - 118, ref = 0, num = 100\<rparr>
         \<lparr>lat = 34, lng = - 118, ref = 1, num = 200\<rparr> = NaN
   \<and> interpolate_try \<lparr>lat = 34, lng = - 118\<rparr> ''Main St''
        (Places [place_at ''100'' 34 (- 118), place_at ''200'' 34 (- 118)]) 0 = Inr ''NaN''
   \<and> interpolateAddress \<lparr>lat = 34, lng = - 118\<rparr> ''Main St''
        (Places [place_at ''100'' 34 (- 118), place_at ''200'' 34 (- 118)]) 0 = Inr ''NaN''
   \<and> estimateFromBlock \<lparr>lat = 34, lng = - 118\<rparr> ''Main St'' 0 = ''2710 (approx)''
   \<and> interpolateAddress \<lparr>lat = 34, lng = - 118\<rparr> ''Main St''
        (Places [place_at ''100'' 34 (- 118), place_at ''200'' 34 (- 118)]) 0
      \<noteq> Inr (estimateFromBlock \<lparr>lat = 34, lng = - 118\<rparr> ''Main St'' 0)"
  using degenerate_returns_NaN degenerate_try_returns_NaN grid_at_degenerate
  by simp

text \<open>
  C9 fails on the code. When the two nearest candidates and the target are at the
  same position, both distances are zero, the quotient is \<open>NaN\<close>, the clamp
  passes \<open>NaN\<close> on, and the interpolator returns the text \<open>NaN\<close>: the ratio is not
  in the unit interval and the result is not a number between the two
  candidates' numbers.
\<close>

theorem colocated_candidates_yield_NaN:
  "ratio \<lparr>lat = 34, lng = - 118\<rparr> \<lparr>lat = 34, lng = - 118, ref = 0, num = 100\<rparr>
         \<lparr>lat = 34, lng = - 118, ref = 1, num = 200\<rparr> = NaN
   \<and> interpolateAddress \<lparr>lat = 34, lng = - 118\<rparr> ''Main St''
        (Places [place_at ''100'' 34 (- 118), place_at ''200'' 34 (- 118)]) 0 = Inr ''NaN''"
  by (rule degenerate_returns_NaN)

section \<open>Properties of the Address Composer\<close>

lemma or_else_nonempty: "d \<noteq> [] \<Longrightarrow> or_else v d \<noteq> []"
  by (simp add: or_else_def split: option.splits)

lemma join_nonempty: "x \<in> set xs \<Longrightarrow> x \<noteq> [] \<Longrightarrow> join sep xs \<noteq> []"
  by (induction sep xs rule: join.induct) auto

lemma address_parts_joined_nonempty: "join '', '' (address_parts addr streetNum rd) \<noteq> []"
proof -
  have "''CA'' \<in> set (address_parts addr streetNum rd)"
    by (simp add: address_parts_def)
  then show ?thesis
    by (rule join_nonempty) simp
qed

lemma getAddress_try_nonempty: "getAddress_try loc rv res rnd = Inr s \<Longrightarrow> s \<noteq> []"
  by (auto simp: getAddress_try_def Let_def or_else_nonempty address_parts_joined_nonempty
        split: reverse_result.splits sum.splits if_splits)

lemma getAddress_nonempty: "\<exists>s. getAddress l rv res rnd = Inr s \<and> s \<noteq> []"
proof (cases l)
  case None
  then show ?thesis by (simp add: getAddress_def)
next
  case (Some loc)
  show ?thesis
  proof (cases "getAddress_try loc rv res rnd")
    case (Inl e)
    with Some show ?thesis by (simp add: getAddress_def)
  next
    case (Inr s)
    with Some getAddress_try_nonempty [OF Inr] show ?thesis by (simp add: getAddress_def)
  qed
qed

lemma reverseGeo_nonempty: "\<exists>s. reverseGeo l rv = Inr s \<and> s \<noteq> []"
  by (auto simp: reverseGeo_def reverseGeo_try_def Let_def or_else_nonempty
        split: option.splits reverse_result.splits sum.splits if_splits)

lemma getAddress_with_street:
  assumes "road_of data \<noteq> []"
  shows "\<exists>streetNum. streetNum \<noteq> []
           \<and> (if truthy (house_number (addr_of data))
                then house_number (addr_of data) = Some streetNum
                else interpolateAddress loc (road_of data) res rnd = Inr streetNum)
           \<and> getAddress (Some loc) (RevData data) res rnd
               = Inr (join '', '' (address_parts (addr_of data) streetNum (road_of data)))"
proof (cases "truthy (house_number (addr_of data))")
  case True
  then obtain h where h: "house_number (addr_of data) = Some h" "h \<noteq> []"
    by (auto simp: truthy_def split: option.splits)
  with True assms show ?thesis
    by (simp add: getAddress_def getAddress_try_def Let_def or_else_def)
next
  case False
  from interpolateAddress_returns [of loc "road_of data" res rnd]
  obtain s where s: "interpolateAddress loc (road_of data) res rnd = Inr s" "s \<noteq> []"
    by blast
  with False assms show ?thesis
    by (simp add: getAddress_def getAddress_try_def Let_def)
qed

lemma getAddress_without_street:
  assumes "road_of data = []"
  shows "getAddress (Some loc) (RevData data) res rnd
           = Inr (or_else (display_name data) ''Los Angeles, CA'')"
  using assms by (simp add: getAddress_def getAddress_try_def Let_def)

lemma getAddress_failures:
  "getAddress None rv res rnd = Inr ''Los Angeles, CA''"
  "getAddress (Some loc) RevFetchFailed res rnd = Inr ''Los Angeles, CA''"
  "getAddress (Some loc) RevInvalidJson res rnd = Inr ''Los Angeles, CA''"
  "getAddress (Some loc) RevNull res rnd = Inr ''Los Angeles, CA''"
  by (simp_all add: getAddress_def getAddress_try_def)

lemma address_parts_full:
  assumes "streetNum \<noteq> []" "rd \<noteq> []" "neighbourhood addr = Some n" "n \<noteq> []"
    "city addr = Some c" "c \<noteq> []" "postcode addr = Some z" "z \<noteq> []"
  shows "join '', '' (address_parts addr streetNum rd)
         = streetNum @ '' '' @ rd @ '', '' @ n @ '', '' @ c @ '', CA, '' @ z"
  using assms by (simp add: address_parts_def truthy_def or_else_def)

text \<open>
  C7. For every coordinate (valid or not) the Address Composer returns a string
  that is not empty, and so does the composer of the Bel Air variant. With a
  street name, \<open>getAddress\<close> joins the fields in the fixed order: number and
  street, neighbourhood (else suburb), city (else \<open>Los Angeles\<close>), \<open>CA\<close>,
  postcode; the number is the geocoder's house number, else the interpolator's
  result. With no street name it returns the geocoder's display string, and with
  neither, with no coordinate, or when the lookup fails, \<open>Los Angeles, CA\<close>.
\<close>

theorem getAddress_never_empty:
  "(\<exists>s. getAddress l rv res rnd = Inr s \<and> s \<noteq> [])
   \<and> (\<exists>s. reverseGeo l rv = Inr s \<and> s \<noteq> [])
   \<and> (road_of data \<noteq> [] \<longrightarrow>
        (\<exists>streetNum. streetNum \<noteq> []
           \<and> (if truthy (house_number (addr_of data))
                then house_number (addr_of data) = Some streetNum
                else interpolateAddress loc (road_of data) res rnd = Inr streetNum)
           \<and> getAddress (Some loc) (RevData data) res rnd
               = Inr (join '', '' (address_parts (addr_of data) streetNum (road_of data)))))
   \<and> (house_number (addr_of data) = Some h \<and> h \<noteq> [] \<and> road (addr_of data) = Some r \<and> r \<noteq> []
        \<and> neighbourhood (addr_of data) = Some n \<and> n \<noteq> [] \<and> city (addr_of data) = Some c \<and> c \<noteq> []
        \<and> postcode (addr_of data) = Some z \<and> z \<noteq> [] \<longrightarrow>
        getAddress (Some loc) (RevData data) res rnd
          = Inr (h @ '' '' @ r @ '', '' @ n @ '', '' @ c @ '', CA, '' @ z))
   \<and> (road_of data = [] \<and> display_name data = Some d \<and> d \<noteq> [] \<longrightarrow>
        getAddress (Some loc) (RevData data) res rnd = Inr d)
   \<and> (road_of data = [] \<and> \<not> truthy (display_name data) \<longrightarrow>
        getAddress (Some loc) (RevData data) res rnd = Inr ''Los Angeles, CA'')
   \<and> getAddress None rv res rnd = Inr ''Los Angeles, CA''
   \<and> getAddress (Some loc) RevFetchFailed res rnd = Inr ''Los Angeles, CA''
   \<and> getAddress (Some loc) RevInvalidJson res rnd = Inr ''Los Angeles, CA''
   \<and> getAddress (Some loc) RevNull res rnd = Inr ''Los Angeles, CA''"
proof -
  have full: "getAddress (Some loc) (RevData data) res rnd
          = Inr (h @ '' '' @ r @ '', '' @ n @ '', '' @ c @ '', CA, '' @ z)"
    if a: "house_number (addr_of data) = Some h" "h \<noteq> []" "road (addr_of data) = Some r" "r \<noteq> []"
      "neighbourhood (addr_of data) = Some n" "n \<noteq> []" "city (addr_of data) = Some c" "c \<noteq> []"
      "postcode (addr_of data) = Some z" "z \<noteq> []"
  proof -
    have rd: "road_of data = r"
      using a(3,4) by (simp add: road_of_def or_else_def)
    with a(4) have "road_of data \<noteq> []" by simp
    from getAddress_with_street [OF this, of loc res rnd] a(1,2)
    have "getAddress (Some loc) (RevData data) res rnd
            = Inr (join '', '' (address_parts (addr_of data) h (road_of data)))"
      by (auto simp: truthy_def)
    then show ?thesis
      unfolding rd using address_parts_full [OF a(2) a(4) a(5-10)] by simp
  qed
  have disp: "getAddress (Some loc) (RevData data) res rnd = Inr d"
    if "road_of data = []" "display_name data = Some d" "d \<noteq> []"
    using getAddress_without_street [OF that(1), of loc res rnd] that(2,3)
    by (simp add: or_else_def)
  have dflt: "getAddress (Some loc) (RevData data) res rnd = Inr ''Los Angeles, CA''"
    if "road_of data = []" "\<not> truthy (display_name data)"
    using getAddress_without_street [OF that(1), of loc res rnd] that(2)
    by (simp add: or_else_def truthy_def split: option.splits)
  show ?thesis
    using getAddress_nonempty [of l rv res rnd] reverseGeo_nonempty [of l rv]
      getAddress_with_street [of data loc res rnd] full disp dflt
      getAddress_failures
    by (intro conjI impI) blast+
qed

theorem getAddress_never_empty_witness:
  "house_number (addr_of \<lparr>data_address = Some example_address, display_name = None\<rparr>) = Some ''123''
   \<and> road (addr_of \<lparr>data_address = Some example_address, display_name = None\<rparr>) = Some ''Main St''
   \<and> getAddress (Some \<lparr>lat = 34, lng = - 118\<rparr>)
        (RevData \<lparr>data_address = Some example_address, display_name = None\<rparr>) FetchFailed 0
      = Inr ''123 Main St, Downtown, Los Angeles, CA, 90012''
   \<and> road_of \<lparr>data_address = None, display_name = Some ''Grand Park''\<rparr> = []
   \<and> getAddress (Some \<lparr>lat = 34, lng = - 118\<rparr>)
        (RevData \<lparr>data_address = None, display_name = Some ''Grand Park''\<rparr>) FetchFailed 0
      = Inr ''Grand Park''
   \<and> getAddress (Some \<lparr>lat = 34, lng = - 118\<rparr>)
        (RevData \<lparr>data_address = None, display_name = None\<rparr>) FetchFailed 0
      = Inr ''Los Angeles, CA''"
proof -
  let ?D1 = "\<lparr>data_address = Some example_address, display_name = None\<rparr>"
  let ?D2 = "\<lparr>data_address = None, display_name = Some ''Grand Park''\<rparr>"
  let ?D3 = "\<lparr>data_address = None, display_name = None :: string option\<rparr>"
  let ?L = "\<lparr>lat = 34, lng = - 118\<rparr>"
  have a: "house_number (addr_of ?D1) = Some ''123''" "road (addr_of ?D1) = Some ''Main St''"
    "neighbourhood (addr_of ?D1) = Some ''Downtown''" "city (addr_of ?D1) = Some ''Los Angeles''"
    "postcode (addr_of ?D1) = Some ''90012''"
    by (simp_all add: addr_of_def example_address_def)
  have r2: "road_of ?D2 = []" "display_name ?D2 = Some ''Grand Park''"
    by (simp_all add: road_of_def addr_of_def empty_address_def or_else_def)
  have r3: "road_of ?D3 = []" "\<not> truthy (display_name ?D3)"
    by (simp_all add: road_of_def addr_of_def empty_address_def or_else_def truthy_def)
  have "getAddress (Some ?L) (RevData ?D1) FetchFailed 0
        = Inr (''123'' @ '' '' @ ''Main St'' @ '', '' @ ''Downtown'' @ '', '' @ ''Los Angeles''
               @ '', CA, '' @ ''90012'')"
    using getAddress_never_empty [where data = ?D1 and loc = ?L and res = FetchFailed and rnd = 0
        and h = "''123''" and r = "''Main St''" and n = "''Downtown''" and c = "''Los Angeles''"
        and z = "''90012''"] a
    by blast
  moreover have "getAddress (Some ?L) (RevData ?D2) FetchFailed 0 = Inr ''Grand Park''"
    using getAddress_never_empty [where data = ?D2 and loc = ?L and res = FetchFailed and rnd = 0
        and d = "''Grand Park''"] r2
    by blast
  moreover have "getAddress (Some ?L) (RevData ?D3) FetchFailed 0 = Inr ''Los Angeles, CA''"
    using getAddress_never_empty [where data = ?D3 and loc = ?L and res = FetchFailed and rnd = 0] r3
    by blast
  ultimately show ?thesis
    using a(1,2) r2(1) by simp
qed

section \<open>Properties of the Report Builder\<close>

lemma upper_digit_table:
  "map toUpperCase_char ''0123456789abcdefghijklmnopqrstuvwxyz'' = ''0123456789ABCDEFGHIJKLMNOPQRSTUVWXYZ''"
  by (simp add: toUpperCase_char_def)

lemma upper_digit: "d < 36 \<Longrightarrow> toUpperCase_char (digit_char d) = ''0123456789ABCDEFGHIJKLMNOPQRSTUVWXYZ'' ! d"
proof -
  assume d: "d < 36"
  have "map toUpperCase_char ''0123456789abcdefghijklmnopqrstuvwxyz'' ! d
        = toUpperCase_char (''0123456789abcdefghijklmnopqrstuvwxyz'' ! d)"
    using d by (intro nth_map) simp
  then show ?thesis
    unfolding upper_digit_table digit_char_def by simp
qed

lemma upper_digit_inj:
  assumes "d < 36" and "e < 36"
    and "toUpperCase_char (digit_char d) = toUpperCase_char (digit_char e)"
  shows "d = e"
proof -
  let ?U = "''0123456789ABCDEFGHIJKLMNOPQRSTUVWXYZ''"
  have "distinct ?U" by simp
  moreover have "d < length ?U" "e < length ?U"
    using assms(1,2) by simp_all
  moreover have "?U ! d = ?U ! e"
    using assms by (simp add: upper_digit)
  ultimately show ?thesis
    by (simp only: nth_eq_iff_index_eq)
qed

lemma upper_digit_not_dash: "d < 36 \<Longrightarrow> toUpperCase_char (digit_char d) \<noteq> CHR ''-''"
proof -
  assume d: "d < 36"
  let ?U = "''0123456789ABCDEFGHIJKLMNOPQRSTUVWXYZ''"
  have "?U ! d \<in> set ?U"
    using d by (intro nth_mem) simp
  moreover have "CHR ''-'' \<notin> set ?U" by simp
  ultimately show ?thesis
    using d by (metis upper_digit)
qed

lemma time_token_unfold:
  "time_token n = (if n < 36 then [toUpperCase_char (digit_char n)]
                   else time_token (n div 36) @ [toUpperCase_char (digit_char (n mod 36))])"
  unfolding time_token_def by (subst digits36.simps) (simp add: toUpperCase_def)

lemma time_token_nonempty: "time_token n \<noteq> []"
  by (subst time_token_unfold) simp

lemma time_token_inj: "time_token n = time_token m \<Longrightarrow> n = m"
proof (induction n arbitrary: m rule: digits36.induct)
  case (1 n)
  show ?case
  proof (cases "n < 36")
    case True
    show ?thesis
    proof (cases "m < 36")
      case m: True
      from "1.prems" True m
      have "toUpperCase_char (digit_char n) = toUpperCase_char (digit_char m)"
        by (simp add: time_token_unfold [of n] time_token_unfold [of m])
      with True m show ?thesis by (rule upper_digit_inj)
    next
      case False
      with "1.prems" True time_token_nonempty [of "m div 36"] show ?thesis
        by (simp add: time_token_unfold [of n] time_token_unfold [of m])
    qed
  next
    case False
    show ?thesis
    proof (cases "m < 36")
      case True
      with "1.prems" False time_token_nonempty [of "n div 36"] show ?thesis
        by (simp add: time_token_unfold [of n] time_token_unfold [of m])
    next
      case m: False
      from "1.prems" False m
      have eq: "time_token (n div 36) = time_token (m div 36)"
        "toUpperCase_char (digit_char (n mod 36)) = toUpperCase_char (digit_char (m mod 36))"
        by (simp_all add: time_token_unfold [of n] time_token_unfold [of m])
      from "1.IH" [OF False eq(1)] have q: "n div 36 = m div 36" .
      have "n mod 36 = m mod 36"
        using eq(2) by (intro upper_digit_inj) simp_all
      with q show ?thesis
        by (metis div_mult_mod_eq)
    qed
  qed
qed

lemma time_token_no_dash: "CHR ''-'' \<notin> set (time_token n)"
proof (induction n rule: digits36.induct)
  case (1 n)
  show ?case
  proof (cases "n < 36")
    case True
    then show ?thesis
      using upper_digit_not_dash [of n] by (simp add: time_token_unfold [of n])
  next
    case False
    with "1.IH" upper_digit_not_dash [of "n mod 36"] show ?thesis
      by (simp add: time_token_unfold [of n])
  qed
qed

lemma split_at_first:
  assumes "x \<notin> set xs" and "x \<notin> set xs'"
  shows "xs @ x # ys = xs' @ x # ys' \<longleftrightarrow> xs = xs' \<and> ys = ys'"
  using assms
proof (induction xs arbitrary: xs')
  case Nil
  then show ?case by (cases xs') auto
next
  case (Cons a xs)
  then show ?case by (cases xs') auto
qed

lemma reportId_of_eq_iff:
  "reportId_of n1 r1 = reportId_of n2 r2
   \<longleftrightarrow> n1 = n2 \<and> toUpperCase (slice 2 6 r1) = toUpperCase (slice 2 6 r2)"
proof -
  have "reportId_of n1 r1 = reportId_of n2 r2
        \<longleftrightarrow> time_token n1 @ CHR ''-'' # toUpperCase (slice 2 6 r1)
            = time_token n2 @ CHR ''-'' # toUpperCase (slice 2 6 r2)"
    by (simp add: reportId_of_def)
  also have "\<dots> \<longleftrightarrow> time_token n1 = time_token n2
                    \<and> toUpperCase (slice 2 6 r1) = toUpperCase (slice 2 6 r2)"
    by (rule split_at_first) (rule time_token_no_dash)+
  also have "\<dots> \<longleftrightarrow> n1 = n2 \<and> toUpperCase (slice 2 6 r1) = toUpperCase (slice 2 6 r2)"
    using time_token_inj by blast
  finally show ?thesis .
qed

lemma handleReport_before_store:
  "handleReport P E origin BadJson store = (failure_response, store)"
  "handleReport P E origin JsonNull store = (failure_response, store)"
  "rep_location report = None \<Longrightarrow>
     handleReport P E origin (Report report) store = (failure_response, store)"
  by (simp_all add: handleReport_def)

lemma handleReport_stores:
  assumes "rep_location report = Some l"
  shows "snd (handleReport P E origin (Report report) store) (reportId_of (now E) (random36 E)) \<noteq> None"
    and "k \<noteq> reportId_of (now E) (random36 E) \<Longrightarrow>
          snd (handleReport P E origin (Report report) store) k = store k"
  using assms
  by (simp_all add: handleReport_def Let_def split: sum.splits option.splits)

lemma handleReport_missing_address:
  assumes "rep_location report = Some l" and "rep_address report = None"
  shows "fst (handleReport P E origin (Report report) store) = failure_response"
  using assms
  by (simp add: handleReport_def Let_def split: sum.splits option.splits)

lemma handleReport_complete:
  assumes "rep_location report = Some l" and "loc_lat l = Some la" and "loc_lng l = Some lo"
    and "rep_address report = Some addr"
  shows "response_reportId (fst (handleReport P E origin (Report report) store))
         = Some (reportId_of (now E) (random36 E))"
  using assms
  by (simp add: handleReport_def Let_def generateFormalLetter_def toFixed6_of_def
        response_reportId_def)

lemma handleReport_same_readings_idem:
  "snd (handleReport P E origin body (snd (handleReport P E origin body store)))
   = snd (handleReport P E origin body store)"
  by (simp add: handleReport_def Let_def
        split: request_body.splits sum.splits option.splits)

text \<open>
  C6 fails on the code. For a capture with a location and no \<open>address\<close> field,
  the handler stores the record under the new identifier and only then fails
  (\<open>report.address.split\<close> throws on the absent field): it answers with the
  failure response, status 500, and the store, empty before the call, holds a
  record after it.
\<close>

theorem missing_address_fails_after_store:
  "fst (handleReport P E origin (Report report_without_address) Map.empty) = failure_response
   \<and> snd (handleReport P E origin (Report report_without_address) Map.empty)
        (reportId_of (now E) (random36 E)) \<noteq> None
   \<and> snd (handleReport P E origin (Report report_without_address) Map.empty) \<noteq> Map.empty"
proof -
  have l: "rep_location report_without_address = Some example_location"
    and a: "rep_address report_without_address = None"
    by (simp_all add: report_without_address_def example_report_def)
  have f: "fst (handleReport P E origin (Report report_without_address) Map.empty) = failure_response"
    using l a by (rule handleReport_missing_address)
  have s: "snd (handleReport P E origin (Report report_without_address) Map.empty)
             (reportId_of (now E) (random36 E)) \<noteq> None"
    using l by (rule handleReport_stores(1))
  then have "snd (handleReport P E origin (Report report_without_address) Map.empty) \<noteq> Map.empty"
    by auto
  with f s show ?thesis by blast
qed

text \<open>
  C8, as amended. Two submissions of the same complete capture get different
  identifiers whenever their clock readings differ or the four characters taken
  from their random draws differ; then the second call leaves the first record
  as it was and both records are in the store.
\<close>

theorem distinct_readings_give_distinct_identifiers:
  assumes "rep_location report = Some l" and "loc_lat l = Some la" and "loc_lng l = Some lo"
    and "rep_address report = Some addr"
    and "now E1 \<noteq> now E2
         \<or> toUpperCase (slice 2 6 (random36 E1)) \<noteq> toUpperCase (slice 2 6 (random36 E2))"
  shows "response_reportId (fst (handleReport P E1 origin (Report report) store))
           = Some (reportId_of (now E1) (random36 E1))
       \<and> response_reportId (fst (handleReport P E2 origin (Report report)
             (snd (handleReport P E1 origin (Report report) store))))
           = Some (reportId_of (now E2) (random36 E2))
       \<and> reportId_of (now E1) (random36 E1) \<noteq> reportId_of (now E2) (random36 E2)
       \<and> snd (handleReport P E2 origin (Report report)
             (snd (handleReport P E1 origin (Report report) store)))
           (reportId_of (now E1) (random36 E1))
         = snd (handleReport P E1 origin (Report report) store) (reportId_of (now E1) (random36 E1))
       \<and> snd (handleReport P E1 origin (Report report) store) (reportId_of (now E1) (random36 E1))
           \<noteq> None
       \<and> snd (handleReport P E2 origin (Report report)
             (snd (handleReport P E1 origin (Report report) store)))
           (reportId_of (now E2) (random36 E2)) \<noteq> None"
proof -
  let ?s1 = "snd (handleReport P E1 origin (Report report) store)"
  have ne: "reportId_of (now E1) (random36 E1) \<noteq> reportId_of (now E2) (random36 E2)"
    using assms(5) by (simp add: reportId_of_eq_iff)
  have i1: "response_reportId (fst (handleReport P E1 origin (Report report) store))
           = Some (reportId_of (now E1) (random36 E1))"
    using assms(1-4) by (rule handleReport_complete)
  have i2: "response_reportId (fst (handleReport P E2 origin (Report report) ?s1))
           = Some (reportId_of (now E2) (random36 E2))"
    using assms(1-4) by (rule handleReport_complete)
  have k1: "snd (handleReport P E2 origin (Report report) ?s1) (reportId_of (now E1) (random36 E1))
            = ?s1 (reportId_of (now E1) (random36 E1))"
    using assms(1) ne by (rule handleReport_stores(2))
  have p1: "?s1 (reportId_of (now E1) (random36 E1)) \<noteq> None"
    using assms(1) by (rule handleReport_stores(1))
  have p2: "snd (handleReport P E2 origin (Report report) ?s1) (reportId_of (now E2) (random36 E2))
            \<noteq> None"
    using assms(1) by (rule handleReport_stores(1))
  from i1 i2 ne k1 p1 p2 show ?thesis
    by (intro conjI)
qed

lemma example_report_fields:
  "rep_location example_report = Some example_location"
  "loc_lat example_location = Some 34"
  "loc_lng example_location = Some (- 118)"
  "rep_address example_report = Some ''123 Main St, Los Angeles, CA''"
  by (simp_all add: example_report_def example_location_def)

lemma digits36_example: "digits36 1700000000000 = ''loyw3v28''"
  by (simp add: digits36.simps digit_char_def)

lemma time_token_example: "time_token 1700000000000 = ''LOYW3V28''"
  by (simp add: time_token_def digits36_example toUpperCase_def toUpperCase_char_def)

lemma example_reportId:
  "reportId_of (now example_readings) (random36 example_readings) = ''LA-LOYW3V28-4FZY''"
  by (simp add: reportId_of_def example_readings_def time_token_example slice_def
        toUpperCase_def toUpperCase_char_def)

theorem distinct_readings_give_distinct_identifiers_witness:
  "rep_location example_report = Some example_location
   \<and> loc_lat example_location = Some 34 \<and> loc_lng example_location = Some (- 118)
   \<and> rep_address example_report = Some ''123 Main St, Los Angeles, CA''
   \<and> now example_readings \<noteq> now (example_readings\<lparr>now := 1700000000001\<rparr>)
   \<and> response_reportId (fst (handleReport example_platform example_readings ''https://potholela.com''
          (Report example_report) Map.empty))
       = Some (reportId_of (now example_readings) (random36 example_readings))
   \<and> reportId_of (now example_readings) (random36 example_readings)
       \<noteq> reportId_of (now (example_readings\<lparr>now := 1700000000001\<rparr>))
            (random36 (example_readings\<lparr>now := 1700000000001\<rparr>))"
proof -
  have d: "now example_readings \<noteq> now (example_readings\<lparr>now := 1700000000001\<rparr>)"
    by (simp add: example_readings_def)
  then have d': "now example_readings \<noteq> now (example_readings\<lparr>now := 1700000000001\<rparr>)
      \<or> toUpperCase (slice 2 6 (random36 example_readings))
        \<noteq> toUpperCase (slice 2 6 (random36 (example_readings\<lparr>now := 1700000000001\<rparr>)))"
    by (rule disjI1)
  from distinct_readings_give_distinct_identifiers
         [OF example_report_fields d', of example_platform "''https://potholela.com''" Map.empty]
    example_report_fields d
  show ?thesis by blast
qed

text \<open>
  C8 as stated fails. Two submissions of the same capture during the same
  millisecond whose random draws begin with the same four characters get the same
  identifier, and the second call creates no new record: the store after it is
  the store after the first.
\<close>

theorem same_readings_same_identifier_counterexample:
  "response_reportId (fst (handleReport example_platform example_readings ''https://potholela.com''
      (Report example_report) Map.empty)) = Some ''LA-LOYW3V28-4FZY''
   \<and> response_reportId (fst (handleReport example_platform example_readings ''https://potholela.com''
        (Report example_report)
        (snd (handleReport example_platform example_readings ''https://potholela.com''
           (Report example_report) Map.empty)))) = Some ''LA-LOYW3V28-4FZY''
   \<and> snd (handleReport example_platform example_readings ''https://potholela.com''
        (Report example_report)
        (snd (handleReport example_platform example_readings ''https://potholela.com''
           (Report example_report) Map.empty)))
      = snd (handleReport example_platform example_readings ''https://potholela.com''
           (Report example_report) Map.empty)"
  using handleReport_complete [OF example_report_fields, of example_platform example_readings]
    handleReport_same_readings_idem [of example_platform example_readings]
  by (simp add: example_reportId)

end
